theory Spec2Isabelle
  imports Complex_Main "HOL-Library.Sublist"
begin

section \<open>Characters and strings as the Python library treats them\<close>

text \<open>
  The analyzer of \<^verbatim>\<open>src/models/server.py\<close> works on Python \<^verbatim>\<open>str\<close> values through
  \<^verbatim>\<open>str.lower\<close>, \<^verbatim>\<open>str.strip\<close>, \<^verbatim>\<open>str.title\<close>, \<^verbatim>\<open>str.split\<close> and the \<^verbatim>\<open>re\<close> module.
  Text is modelled as \<^typ>\<open>string\<close> and is taken to be ASCII: the character classes
  below are those of the code points 0 to 127, and a code point above 127 is
  treated as an uncased character that is neither white space nor a word
  character.  Python's classes are larger there (\<^verbatim>\<open>\w\<close> holds accented letters,
  \<^verbatim>\<open>\s\<close> and \<^verbatim>\<open>str.strip\<close> the no-break space, \<^verbatim>\<open>str.lower\<close> and \<^verbatim>\<open>re.IGNORECASE\<close>
  follow the Unicode case tables), so a statement that uses a property of these
  classes is made for ASCII text only, with \<open>is_ascii\<close> as its hypothesis.
\<close>

definition is_ascii :: "string \<Rightarrow> bool" where
  \<comment> \<open>every code point of the text is below 128\<close>
  "is_ascii s = list_all (\<lambda>c. (of_char c :: nat) < 128) s"

definition nl :: char where
  "nl = CHR 0x0A"

definition is_upper :: "char \<Rightarrow> bool" where
  "is_upper c = (let n = (of_char c :: nat) in 65 \<le> n \<and> n \<le> 90)"

definition is_lower :: "char \<Rightarrow> bool" where
  "is_lower c = (let n = (of_char c :: nat) in 97 \<le> n \<and> n \<le> 122)"

definition is_digit :: "char \<Rightarrow> bool" where
  "is_digit c = (let n = (of_char c :: nat) in 48 \<le> n \<and> n \<le> 57)"

definition is_word :: "char \<Rightarrow> bool" where
  \<comment> \<open>\<^verbatim>\<open>\w\<close> on ASCII: letters, digits and the underscore\<close>
  "is_word c = (is_upper c \<or> is_lower c \<or> is_digit c \<or> c = CHR ''_'')"

definition is_space :: "char \<Rightarrow> bool" where
  \<comment> \<open>\<^verbatim>\<open>\s\<close> and \<^verbatim>\<open>str.isspace\<close> on ASCII: code points 9 to 13, 28 to 31 and 32\<close>
  "is_space c = (let n = (of_char c :: nat) in (9 \<le> n \<and> n \<le> 13) \<or> (28 \<le> n \<and> n \<le> 32))"

definition lower_char :: "char \<Rightarrow> char" where
  \<comment> \<open>\<^verbatim>\<open>str.lower\<close> on one ASCII character\<close>
  "lower_char c = (if is_upper c then char_of ((of_char c :: nat) + 32) else c)"

definition upper_char :: "char \<Rightarrow> char" where
  "upper_char c = (if is_lower c then char_of ((of_char c :: nat) - 32) else c)"

definition low5_letter :: "bool \<Rightarrow> bool \<Rightarrow> bool \<Rightarrow> bool \<Rightarrow> bool \<Rightarrow> bool" where
  \<comment> \<open>the five low bits, least significant first, of a number from 1 to 26\<close>
  "low5_letter b0 b1 b2 b3 b4 =
     ((b0 \<or> b1 \<or> b2 \<or> b3 \<or> b4) \<and> \<not> (b4 \<and> b3 \<and> (b2 \<or> (b1 \<and> b0))))"

definition str_lower :: "string \<Rightarrow> string" where
  \<comment> \<open>\<^verbatim>\<open>str.lower()\<close>\<close>
  "str_lower s = map lower_char s"

fun title_from :: "bool \<Rightarrow> string \<Rightarrow> string" where
  "title_from prev_cased [] = []"
| "title_from prev_cased (c # cs) =
     (if prev_cased then lower_char c else upper_char c)
       # title_from (is_upper c \<or> is_lower c) cs"

definition str_title :: "string \<Rightarrow> string" where
  \<comment> \<open>\<^verbatim>\<open>str.title()\<close>: a cased character is upper-cased after an uncased one,
      lower-cased after a cased one\<close>
  "str_title s = title_from False s"

fun split_on :: "char \<Rightarrow> string \<Rightarrow> string list" where
  \<comment> \<open>\<^verbatim>\<open>str.split(sep)\<close> for a one-character separator: never empty\<close>
  "split_on sep [] = [[]]"
| "split_on sep (c # cs) =
     (if c = sep then [] # split_on sep cs
      else (case split_on sep cs of
              [] \<Rightarrow> [[c]]
            | l # ls \<Rightarrow> (c # l) # ls))"

definition str_strip :: "string \<Rightarrow> string" where
  \<comment> \<open>\<^verbatim>\<open>str.strip()\<close>: white space removed at both ends\<close>
  "str_strip s = rev (dropWhile is_space (rev (dropWhile is_space s)))"

fun starts_with :: "string \<Rightarrow> string \<Rightarrow> bool" where
  \<comment> \<open>\<^verbatim>\<open>s.startswith(p)\<close>, called as \<open>starts_with p s\<close>\<close>
  "starts_with [] s = True"
| "starts_with (p # ps) [] = False"
| "starts_with (p # ps) (c # cs) = (p = c \<and> starts_with ps cs)"

fun is_infix :: "string \<Rightarrow> string \<Rightarrow> bool" where
  \<comment> \<open>\<^verbatim>\<open>p in s\<close> on strings, called as \<open>is_infix p s\<close>\<close>
  "is_infix p [] = (p = [])"
| "is_infix p (c # cs) = (starts_with p (c # cs) \<or> is_infix p cs)"

fun replace_char :: "char \<Rightarrow> char \<Rightarrow> string \<Rightarrow> string" where
  \<comment> \<open>\<^verbatim>\<open>str.replace(a, b)\<close> for one-character \<open>a\<close> and \<open>b\<close>\<close>
  "replace_char a b [] = []"
| "replace_char a b (c # cs) = (if c = a then b else c) # replace_char a b cs"

fun join_with :: "string \<Rightarrow> string list \<Rightarrow> string" where
  \<comment> \<open>\<^verbatim>\<open>sep.join(xs)\<close>\<close>
  "join_with sep [] = []"
| "join_with sep [x] = x"
| "join_with sep (x # y # ys) = x @ sep @ join_with sep (y # ys)"

fun digits_of :: "nat \<Rightarrow> string" where
  "digits_of n =
     (if n < 10 then [char_of (48 + n)]
      else digits_of (n div 10) @ [char_of (48 + n mod 10)])"

definition str_of_int :: "int \<Rightarrow> string" where
  \<comment> \<open>\<^verbatim>\<open>str(n)\<close> of a Python integer, as an f-string renders it\<close>
  "str_of_int i = (if i < 0 then CHR ''-'' # digits_of (nat (- i)) else digits_of (nat i))"

section \<open>Regular expressions of the rule tables\<close>

text \<open>
  The rule tables use a small fragment of Python's regular expressions: literal
  characters, \<^verbatim>\<open>.\<close>, \<^verbatim>\<open>\s\<close>, \<^verbatim>\<open>\w\<close>, bracket classes, the quantifiers \<^verbatim>\<open>*\<close>, \<^verbatim>\<open>+\<close>
  and \<^verbatim>\<open>?\<close> on a single character or class, \<^verbatim>\<open>$\<close>, \<^verbatim>\<open>\b\<close>, and groups that are
  alternatives of literal words.  A pattern is a sequence of such items.
\<close>

datatype citem = CChar char | CWord | CSpace

datatype atom = Lit char | Dot | Space | Word | OneOf "citem list" | NoneOf "citem list"

datatype item = One atom | Star atom | Plus atom | Opt atom | Eol | Bnd
  | Alts "atom list list"

type_synonym regex = "item list"

definition lit :: "string \<Rightarrow> regex" where
  "lit s = map (\<lambda>c. One (Lit c)) s"

definition words :: "string list \<Rightarrow> item" where
  \<comment> \<open>a group \<^verbatim>\<open>(w1|w2|...)\<close> of literal alternatives\<close>
  "words ws = Alts (map (map Lit) ws)"

definition char_eq :: "bool \<Rightarrow> char \<Rightarrow> char \<Rightarrow> bool" where
  \<comment> \<open>comparison of a pattern character with a text character; the flag is
      \<^verbatim>\<open>re.IGNORECASE\<close>\<close>
  "char_eq ic x c = (if ic then lower_char x = lower_char c else x = c)"

fun citem_match :: "bool \<Rightarrow> citem \<Rightarrow> char \<Rightarrow> bool" where
  "citem_match ic (CChar x) c = char_eq ic x c"
| "citem_match ic CWord c = is_word c"
| "citem_match ic CSpace c = is_space c"

fun class_match :: "bool \<Rightarrow> citem list \<Rightarrow> char \<Rightarrow> bool" where
  "class_match ic [] c = False"
| "class_match ic (x # xs) c = (citem_match ic x c \<or> class_match ic xs c)"

fun amatch :: "bool \<Rightarrow> atom \<Rightarrow> char \<Rightarrow> bool" where
  "amatch ic (Lit x) c = char_eq ic x c"
| "amatch ic Dot c = (c \<noteq> nl)"
| "amatch ic Space c = is_space c"
| "amatch ic Word c = is_word c"
| "amatch ic (OneOf xs) c = class_match ic xs c"
| "amatch ic (NoneOf xs) c = (\<not> class_match ic xs c)"

fun at_eol :: "bool \<Rightarrow> string \<Rightarrow> bool" where
  \<comment> \<open>\<^verbatim>\<open>$\<close>: at the end of the text or before its final newline; with
      \<^verbatim>\<open>re.MULTILINE\<close> (the flag) before every newline\<close>
  "at_eol ml [] = True"
| "at_eol ml (c # cs) = (c = nl \<and> (ml \<or> cs = []))"

fun at_boundary :: "char option \<Rightarrow> string \<Rightarrow> bool" where
  \<comment> \<open>\<^verbatim>\<open>\b\<close>: exactly one of the previous and the next character is a word character\<close>
  "at_boundary None [] = False"
| "at_boundary None (c # cs) = is_word c"
| "at_boundary (Some p) [] = is_word p"
| "at_boundary (Some p) (c # cs) = (is_word p \<noteq> is_word c)"

fun match_lits :: "bool \<Rightarrow> atom list \<Rightarrow> char option \<Rightarrow> string \<Rightarrow> (char option \<times> string) option" where
  "match_lits ic [] p s = Some (p, s)"
| "match_lits ic (a # as) p [] = None"
| "match_lits ic (a # as) p (c # cs) = (if amatch ic a c then match_lits ic as (Some c) cs else None)"

fun item_weight :: "item \<Rightarrow> nat" where
  "item_weight (Plus a) = 2"
| "item_weight (Alts ls) = Suc (length ls)"
| "item_weight i = 1"

text \<open>
  The backtracking matcher.  \<open>match_here ic ml r p s\<close> tries the pattern \<open>r\<close>
  at the current position, where \<open>p\<close> is the character before the position (if
  any) and \<open>s\<close> the text from the position on.  It returns the position after
  the match the \<^verbatim>\<open>re\<close> engine reports: quantifiers are greedy and give back
  one character at a time, alternatives are tried from left to right.
\<close>

function (sequential) match_here ::
  "bool \<Rightarrow> bool \<Rightarrow> regex \<Rightarrow> char option \<Rightarrow> string \<Rightarrow> (char option \<times> string) option" where
  "match_here ic ml [] p s = Some (p, s)"
| "match_here ic ml (One a # r) p s =
     (case s of
        [] \<Rightarrow> None
      | c # cs \<Rightarrow> if amatch ic a c then match_here ic ml r (Some c) cs else None)"
| "match_here ic ml (Star a # r) p s =
     (case s of
        [] \<Rightarrow> match_here ic ml r p s
      | c # cs \<Rightarrow>
          if amatch ic a c
          then (case match_here ic ml (Star a # r) (Some c) cs of
                  Some x \<Rightarrow> Some x
                | None \<Rightarrow> match_here ic ml r p s)
          else match_here ic ml r p s)"
| "match_here ic ml (Plus a # r) p s =
     (case s of
        [] \<Rightarrow> None
      | c # cs \<Rightarrow> if amatch ic a c then match_here ic ml (Star a # r) (Some c) cs else None)"
| "match_here ic ml (Opt a # r) p s =
     (case s of
        [] \<Rightarrow> match_here ic ml r p s
      | c # cs \<Rightarrow>
          if amatch ic a c
          then (case match_here ic ml r (Some c) cs of
                  Some x \<Rightarrow> Some x
                | None \<Rightarrow> match_here ic ml r p s)
          else match_here ic ml r p s)"
| "match_here ic ml (Eol # r) p s = (if at_eol ml s then match_here ic ml r p s else None)"
| "match_here ic ml (Bnd # r) p s = (if at_boundary p s then match_here ic ml r p s else None)"
| "match_here ic ml (Alts [] # r) p s = None"
| "match_here ic ml (Alts (l # ls) # r) p s =
     (case match_lits ic l p s of
        None \<Rightarrow> match_here ic ml (Alts ls # r) p s
      | Some (p', s') \<Rightarrow>
          (case match_here ic ml r p' s' of
             Some x \<Rightarrow> Some x
           | None \<Rightarrow> match_here ic ml (Alts ls # r) p s))"
  by pat_completeness auto

termination
  by (relation "measures [\<lambda>(ic, ml, r, p, s). sum_list (map item_weight r),
                          \<lambda>(ic, ml, r, p, s). length s]") auto

fun search_from :: "bool \<Rightarrow> bool \<Rightarrow> regex \<Rightarrow> char option \<Rightarrow> string \<Rightarrow> bool" where
  "search_from ic ml r p s =
     (case match_here ic ml r p s of
        Some x \<Rightarrow> True
      | None \<Rightarrow> (case s of [] \<Rightarrow> False | c # cs \<Rightarrow> search_from ic ml r (Some c) cs))"

definition re_search :: "bool \<Rightarrow> bool \<Rightarrow> regex \<Rightarrow> string \<Rightarrow> bool" where
  \<comment> \<open>\<^verbatim>\<open>re.search(r, s, flags)\<close> read as a truth value; \<open>ic\<close> is \<^verbatim>\<open>re.IGNORECASE\<close>,
      \<open>ml\<close> is \<^verbatim>\<open>re.MULTILINE\<close>\<close>
  "re_search ic ml r s = search_from ic ml r None s"

function count_from :: "bool \<Rightarrow> bool \<Rightarrow> regex \<Rightarrow> char option \<Rightarrow> string \<Rightarrow> nat" where
  "count_from ic ml r p s =
     (case match_here ic ml r p s of
        None \<Rightarrow> (case s of [] \<Rightarrow> 0 | c # cs \<Rightarrow> count_from ic ml r (Some c) cs)
      | Some (p', s') \<Rightarrow>
          if length s' < length s then Suc (count_from ic ml r p' s')
          else (case s of [] \<Rightarrow> 1 | c # cs \<Rightarrow> Suc (count_from ic ml r (Some c) cs)))"
  by pat_completeness auto

termination
  by (relation "measure (\<lambda>(ic, ml, r, p, s). length s)") auto

definition re_count :: "bool \<Rightarrow> bool \<Rightarrow> regex \<Rightarrow> string \<Rightarrow> nat" where
  \<comment> \<open>\<^verbatim>\<open>len(re.findall(r, s, flags))\<close>: the matches found from left to right,
      each search resuming where the previous match ended (one character further
      after an empty match; no pattern of the rule tables matches the empty text)\<close>
  "re_count ic ml r s = count_from ic ml r None s"

section \<open>Rule tables\<close>

text \<open>
  The three tables of \<^verbatim>\<open>CodeAnalyzer.__init__\<close>, as association lists in the
  order in which the dictionaries are written (a Python dictionary iterates in
  insertion order).  Each pattern is given with its source text.
\<close>

definition sp :: item where \<comment> \<open>\<^verbatim>\<open>\s+\<close>\<close>
  "sp = Plus Space"

definition sp0 :: item where \<comment> \<open>\<^verbatim>\<open>\s*\<close>\<close>
  "sp0 = Star Space"

definition wd :: item where \<comment> \<open>\<^verbatim>\<open>\w+\<close>\<close>
  "wd = Plus Word"

definition dots :: item where \<comment> \<open>\<^verbatim>\<open>.*\<close>\<close>
  "dots = Star Dot"

definition quote :: item where \<comment> \<open>the class of the double and the single quote\<close>
  "quote = One (OneOf [CChar (CHR 0x22), CChar (CHR 0x27)])"

definition language_patterns :: "(string \<times> regex list) list" where
  \<open>language_patterns =
   [(''python'',
       [lit ''.py'' @ [Eol],                        \<comment> \<open>\<^verbatim>\<open>\.py$\<close>\<close>
        lit ''import'' @ [sp, wd],                  \<comment> \<open>\<^verbatim>\<open>import\s+\w+\<close>\<close>
        lit ''def'' @ [sp, wd],                     \<comment> \<open>\<^verbatim>\<open>def\s+\w+\<close>\<close>
        lit ''class'' @ [sp, wd],                   \<comment> \<open>\<^verbatim>\<open>class\s+\w+\<close>\<close>
        lit ''if'' @ [sp] @ lit ''__name__'' @ [sp0] @ lit ''=='' @ [sp0, quote]
          @ lit ''__main__'' @ [quote]]),           \<comment> \<open>\<^verbatim>\<open>if\s+__name__\s*==\s*Q__main__Q\<close>, \<open>Q\<close> the class of both quotes\<close>
    (''java'',
       [lit ''.java'' @ [Eol],                      \<comment> \<open>\<^verbatim>\<open>\.java$\<close>\<close>
        lit ''public'' @ [sp] @ lit ''class'',      \<comment> \<open>\<^verbatim>\<open>public\s+class\<close>\<close>
        lit ''import'' @ [sp, Plus (OneOf [CWord, CChar (CHR ''.'')])] @ lit '';'',
                                                    \<comment> \<open>\<^verbatim>\<open>import\s+[\w.]+;\<close>\<close>
        lit ''public'' @ [sp] @ lit ''static'' @ [sp] @ lit ''void'' @ [sp] @ lit ''main'',
                                                    \<comment> \<open>\<^verbatim>\<open>public\s+static\s+void\s+main\<close>\<close>
        lit ''@'' @ [wd]]),                         \<comment> \<open>\<^verbatim>\<open>@\w+\<close>\<close>
    (''javascript'',
       [lit ''.js'' @ [Eol],                        \<comment> \<open>\<^verbatim>\<open>\.js$\<close>\<close>
        lit ''function'' @ [sp, wd],                \<comment> \<open>\<^verbatim>\<open>function\s+\w+\<close>\<close>
        lit ''const'' @ [sp, wd],                   \<comment> \<open>\<^verbatim>\<open>const\s+\w+\<close>\<close>
        lit ''let'' @ [sp, wd],                     \<comment> \<open>\<^verbatim>\<open>let\s+\w+\<close>\<close>
        lit ''var'' @ [sp, wd],                     \<comment> \<open>\<^verbatim>\<open>var\s+\w+\<close>\<close>
        lit ''=>'']),                               \<comment> \<open>\<^verbatim>\<open>=>\<close>\<close>
    (''typescript'',
       [lit ''.ts'' @ [Eol],                        \<comment> \<open>\<^verbatim>\<open>\.ts$\<close>\<close>
        lit ''interface'' @ [sp, wd],               \<comment> \<open>\<^verbatim>\<open>interface\s+\w+\<close>\<close>
        lit ''type'' @ [sp, wd],                    \<comment> \<open>\<^verbatim>\<open>type\s+\w+\<close>\<close>
        lit '':'' @ [sp0, wd],                      \<comment> \<open>\<^verbatim>\<open>:\s*\w+\<close>\<close>
        lit ''export'' @ [sp]]),                    \<comment> \<open>\<^verbatim>\<open>export\s+\<close>\<close>
    (''c++'',
       [lit ''.'' @ [words [''cpp'', ''cc'', ''cxx''], Eol],  \<comment> \<open>\<^verbatim>\<open>\.(cpp|cc|cxx)$\<close>\<close>
        lit ''#include'' @ [sp0] @ lit ''<'',       \<comment> \<open>\<^verbatim>\<open>#include\s*<\<close>\<close>
        lit ''using'' @ [sp] @ lit ''namespace'',   \<comment> \<open>\<^verbatim>\<open>using\s+namespace\<close>\<close>
        lit ''std::'',                              \<comment> \<open>\<^verbatim>\<open>std::\<close>\<close>
        lit ''int'' @ [sp] @ lit ''main'']),        \<comment> \<open>\<^verbatim>\<open>int\s+main\<close>\<close>
    (''c'',
       [lit ''.c'' @ [Eol],                         \<comment> \<open>\<^verbatim>\<open>\.c$\<close>\<close>
        lit ''#include'' @ [sp0] @ lit ''<'',       \<comment> \<open>\<^verbatim>\<open>#include\s*<\<close>\<close>
        lit ''int'' @ [sp] @ lit ''main'',          \<comment> \<open>\<^verbatim>\<open>int\s+main\<close>\<close>
        lit ''printf'' @ [sp0] @ lit ''('',         \<comment> \<open>\<^verbatim>\<open>printf\s*\(\<close>\<close>
        lit ''malloc'' @ [sp0] @ lit ''('']),       \<comment> \<open>\<^verbatim>\<open>malloc\s*\(\<close>\<close>
    (''html'',
       [lit ''.htm'' @ [Opt (Lit (CHR ''l'')), Eol], \<comment> \<open>\<^verbatim>\<open>\.html?$\<close>\<close>
        lit ''<html>'',                             \<comment> \<open>\<^verbatim>\<open><html>\<close>\<close>
        lit ''<div'',                               \<comment> \<open>\<^verbatim>\<open><div\<close>\<close>
        lit ''<span'',                              \<comment> \<open>\<^verbatim>\<open><span\<close>\<close>
        lit ''<!DOCTYPE'']),                        \<comment> \<open>\<^verbatim>\<open><!DOCTYPE\<close>\<close>
    (''css'',
       [lit ''.css'' @ [Eol],                       \<comment> \<open>\<^verbatim>\<open>\.css$\<close>\<close>
        lit ''{'' @ [Star (NoneOf [CChar (CHR ''}'')])] @ lit ''}'',  \<comment> \<open>\<^verbatim>\<open>\{[^}]*\}\<close>\<close>
        lit ''@media'',                             \<comment> \<open>\<^verbatim>\<open>@media\<close>\<close>
        lit ''#'' @ [wd],                           \<comment> \<open>\<^verbatim>\<open>#\w+\<close>\<close>
        lit ''.'' @ [wd]]),                         \<comment> \<open>\<^verbatim>\<open>\.\w+\<close>\<close>
    (''sql'',
       [lit ''.sql'' @ [Eol],                       \<comment> \<open>\<^verbatim>\<open>\.sql$\<close>\<close>
        lit ''SELECT'' @ [sp],                      \<comment> \<open>\<^verbatim>\<open>SELECT\s+\<close>\<close>
        lit ''INSERT'' @ [sp],                      \<comment> \<open>\<^verbatim>\<open>INSERT\s+\<close>\<close>
        lit ''UPDATE'' @ [sp],                      \<comment> \<open>\<^verbatim>\<open>UPDATE\s+\<close>\<close>
        lit ''DELETE'' @ [sp],                      \<comment> \<open>\<^verbatim>\<open>DELETE\s+\<close>\<close>
        lit ''CREATE'' @ [sp] @ lit ''TABLE'']),    \<comment> \<open>\<^verbatim>\<open>CREATE\s+TABLE\<close>\<close>
    (''shell'',
       [lit ''.sh'' @ [Eol],                        \<comment> \<open>\<^verbatim>\<open>\.sh$\<close>\<close>
        lit ''#!/bin/bash'',                        \<comment> \<open>\<^verbatim>\<open>#!/bin/bash\<close>\<close>
        lit ''#!/bin/sh'',                          \<comment> \<open>\<^verbatim>\<open>#!/bin/sh\<close>\<close>
        lit ''echo'' @ [sp],                        \<comment> \<open>\<^verbatim>\<open>echo\s+\<close>\<close>
        lit ''grep'' @ [sp]]),                      \<comment> \<open>\<^verbatim>\<open>grep\s+\<close>\<close>
    (''go'',
       [lit ''.go'' @ [Eol],                        \<comment> \<open>\<^verbatim>\<open>\.go$\<close>\<close>
        lit ''package'' @ [sp, wd],                 \<comment> \<open>\<^verbatim>\<open>package\s+\w+\<close>\<close>
        lit ''import'' @ [sp] @ lit ''('',          \<comment> \<open>\<^verbatim>\<open>import\s+\(\<close>\<close>
        lit ''func'' @ [sp, wd],                    \<comment> \<open>\<^verbatim>\<open>func\s+\w+\<close>\<close>
        lit ''go'' @ [sp, wd]]),                    \<comment> \<open>\<^verbatim>\<open>go\s+\w+\<close>\<close>
    (''rust'',
       [lit ''.rs'' @ [Eol],                        \<comment> \<open>\<^verbatim>\<open>\.rs$\<close>\<close>
        lit ''fn'' @ [sp, wd],                      \<comment> \<open>\<^verbatim>\<open>fn\s+\w+\<close>\<close>
        lit ''let'' @ [sp, wd],                     \<comment> \<open>\<^verbatim>\<open>let\s+\w+\<close>\<close>
        lit ''struct'' @ [sp, wd],                  \<comment> \<open>\<^verbatim>\<open>struct\s+\w+\<close>\<close>
        lit ''impl'' @ [sp]]),                      \<comment> \<open>\<^verbatim>\<open>impl\s+\<close>\<close>
    (''php'',
       [lit ''.php'' @ [Eol],                       \<comment> \<open>\<^verbatim>\<open>\.php$\<close>\<close>
        lit ''<?php'',                              \<comment> \<open>\<^verbatim>\<open><\?php\<close>\<close>
        lit ''$'' @ [wd],                           \<comment> \<open>\<^verbatim>\<open>\$\w+\<close>\<close>
        lit ''function'' @ [sp, wd],                \<comment> \<open>\<^verbatim>\<open>function\s+\w+\<close>\<close>
        lit ''class'' @ [sp, wd]]),                 \<comment> \<open>\<^verbatim>\<open>class\s+\w+\<close>\<close>
    (''ruby'',
       [lit ''.rb'' @ [Eol],                        \<comment> \<open>\<^verbatim>\<open>\.rb$\<close>\<close>
        lit ''def'' @ [sp, wd],                     \<comment> \<open>\<^verbatim>\<open>def\s+\w+\<close>\<close>
        lit ''class'' @ [sp, wd],                   \<comment> \<open>\<^verbatim>\<open>class\s+\w+\<close>\<close>
        lit ''require'' @ [sp],                     \<comment> \<open>\<^verbatim>\<open>require\s+\<close>\<close>
        lit ''puts'' @ [sp]]),                      \<comment> \<open>\<^verbatim>\<open>puts\s+\<close>\<close>
    (''swift'',
       [lit ''.swift'' @ [Eol],                     \<comment> \<open>\<^verbatim>\<open>\.swift$\<close>\<close>
        lit ''func'' @ [sp, wd],                    \<comment> \<open>\<^verbatim>\<open>func\s+\w+\<close>\<close>
        lit ''var'' @ [sp, wd],                     \<comment> \<open>\<^verbatim>\<open>var\s+\w+\<close>\<close>
        lit ''let'' @ [sp, wd],                     \<comment> \<open>\<^verbatim>\<open>let\s+\w+\<close>\<close>
        lit ''class'' @ [sp, wd]]),                 \<comment> \<open>\<^verbatim>\<open>class\s+\w+\<close>\<close>
    (''kotlin'',
       [lit ''.kt'' @ [Eol],                        \<comment> \<open>\<^verbatim>\<open>\.kt$\<close>\<close>
        lit ''fun'' @ [sp, wd],                     \<comment> \<open>\<^verbatim>\<open>fun\s+\w+\<close>\<close>
        lit ''val'' @ [sp, wd],                     \<comment> \<open>\<^verbatim>\<open>val\s+\w+\<close>\<close>
        lit ''var'' @ [sp, wd],                     \<comment> \<open>\<^verbatim>\<open>var\s+\w+\<close>\<close>
        lit ''class'' @ [sp, wd]])]\<close>                \<comment> \<open>\<^verbatim>\<open>class\s+\w+\<close>\<close>

definition http_verbs :: item where \<comment> \<open>\<^verbatim>\<open>(get|post|put|delete)\<close>\<close>
  "http_verbs = words [''get'', ''post'', ''put'', ''delete'']"

definition code_patterns :: "(string \<times> regex list) list" where
  \<open>code_patterns =
   [(''api_endpoint'',
       [lit ''@app.route'',                         \<comment> \<open>\<^verbatim>\<open>@app\.route\<close>\<close>
        lit ''@RequestMapping'',                    \<comment> \<open>\<^verbatim>\<open>@RequestMapping\<close>\<close>
        lit ''app.'' @ [http_verbs],                \<comment> \<open>\<^verbatim>\<open>app\.(get|post|put|delete)\<close>\<close>
        lit ''router.'' @ [http_verbs]]),           \<comment> \<open>\<^verbatim>\<open>router\.(get|post|put|delete)\<close>\<close>
    (''database_query'',
       [lit ''SELECT'' @ [sp, dots] @ lit ''FROM'', \<comment> \<open>\<^verbatim>\<open>SELECT\s+.*FROM\<close>\<close>
        lit ''INSERT'' @ [sp] @ lit ''INTO'',       \<comment> \<open>\<^verbatim>\<open>INSERT\s+INTO\<close>\<close>
        lit ''UPDATE'' @ [sp, dots] @ lit ''SET'',  \<comment> \<open>\<^verbatim>\<open>UPDATE\s+.*SET\<close>\<close>
        lit ''DELETE'' @ [sp] @ lit ''FROM'',       \<comment> \<open>\<^verbatim>\<open>DELETE\s+FROM\<close>\<close>
        lit ''.find('',                             \<comment> \<open>\<^verbatim>\<open>\.find\(\<close>\<close>
        lit ''.save('']),                           \<comment> \<open>\<^verbatim>\<open>\.save\(\<close>\<close>
    (''test_code'',
       [lit ''def'' @ [sp] @ lit ''test_'',         \<comment> \<open>\<^verbatim>\<open>def\s+test_\<close>\<close>
        lit ''@Test'',                              \<comment> \<open>\<^verbatim>\<open>@Test\<close>\<close>
        lit ''it('' @ [dots] @ lit ''should'',      \<comment> \<open>\<^verbatim>\<open>it\(.*should\<close>\<close>
        lit ''describe('',                          \<comment> \<open>\<^verbatim>\<open>describe\(\<close>\<close>
        lit ''assert'',                             \<comment> \<open>\<^verbatim>\<open>assert\<close>\<close>
        lit ''expect('']),                          \<comment> \<open>\<^verbatim>\<open>expect\(\<close>\<close>
    (''configuration'',
       [lit ''.properties'' @ [Eol],                \<comment> \<open>\<^verbatim>\<open>\.properties$\<close>\<close>
        lit ''.yaml'' @ [Eol],                      \<comment> \<open>\<^verbatim>\<open>\.yaml$\<close>\<close>
        lit ''.yml'' @ [Eol],                       \<comment> \<open>\<^verbatim>\<open>\.yml$\<close>\<close>
        lit ''.json'' @ [Eol],                      \<comment> \<open>\<^verbatim>\<open>\.json$\<close>\<close>
        lit ''.xml'' @ [Eol],                       \<comment> \<open>\<^verbatim>\<open>\.xml$\<close>\<close>
        lit ''config'']),                           \<comment> \<open>\<^verbatim>\<open>config\<close>\<close>
    (''authentication'',
       [lit ''login'', lit ''password'', lit ''token'', lit ''auth'', lit ''jwt'', lit ''oauth'']),
    (''error_handling'',
       [lit ''try'' @ [sp0] @ lit '':'',            \<comment> \<open>\<^verbatim>\<open>try\s*:\<close>\<close>
        lit ''catch'' @ [sp0] @ lit ''('',          \<comment> \<open>\<^verbatim>\<open>catch\s*\(\<close>\<close>
        lit ''except'' @ [sp0] @ lit '':'',         \<comment> \<open>\<^verbatim>\<open>except\s*:\<close>\<close>
        lit ''throw'' @ [sp],                       \<comment> \<open>\<^verbatim>\<open>throw\s+\<close>\<close>
        lit ''raise'' @ [sp]]),                     \<comment> \<open>\<^verbatim>\<open>raise\s+\<close>\<close>
    (''logging'',
       [lit ''console.log'',                        \<comment> \<open>\<^verbatim>\<open>console\.log\<close>\<close>
        lit ''print('',                             \<comment> \<open>\<^verbatim>\<open>print\(\<close>\<close>
        lit ''logger.'',                            \<comment> \<open>\<^verbatim>\<open>logger\.\<close>\<close>
        lit ''log.'',                               \<comment> \<open>\<^verbatim>\<open>log\.\<close>\<close>
        lit ''System.out'']),                       \<comment> \<open>\<^verbatim>\<open>System\.out\<close>\<close>
    (''async_code'',
       [lit ''async'' @ [sp] @ lit ''def'',         \<comment> \<open>\<^verbatim>\<open>async\s+def\<close>\<close>
        lit ''await'' @ [sp],                       \<comment> \<open>\<^verbatim>\<open>await\s+\<close>\<close>
        lit ''Promise'' @ [sp0] @ lit ''<'',        \<comment> \<open>\<^verbatim>\<open>Promise\s*<\<close>\<close>
        lit ''CompletableFuture'']),                \<comment> \<open>\<^verbatim>\<open>CompletableFuture\<close>\<close>
    (''ui_component'',
       [lit ''<div'',                               \<comment> \<open>\<^verbatim>\<open><div\<close>\<close>
        lit ''<span'',                              \<comment> \<open>\<^verbatim>\<open><span\<close>\<close>
        lit ''<button'',                            \<comment> \<open>\<^verbatim>\<open><button\<close>\<close>
        lit ''class'' @ [sp0] @ lit ''='',          \<comment> \<open>\<^verbatim>\<open>class\s*=\<close>\<close>
        lit ''id'' @ [sp0] @ lit ''='',             \<comment> \<open>\<^verbatim>\<open>id\s*=\<close>\<close>
        lit ''render'' @ [sp0] @ lit ''('']),       \<comment> \<open>\<^verbatim>\<open>render\s*\(\<close>\<close>
    (''data_processing'',
       [lit ''map'' @ [sp0] @ lit ''('',            \<comment> \<open>\<^verbatim>\<open>map\s*\(\<close>\<close>
        lit ''filter'' @ [sp0] @ lit ''('',         \<comment> \<open>\<^verbatim>\<open>filter\s*\(\<close>\<close>
        lit ''reduce'' @ [sp0] @ lit ''('',         \<comment> \<open>\<^verbatim>\<open>reduce\s*\(\<close>\<close>
        lit ''for'' @ [sp, dots] @ lit ''in'' @ [sp],  \<comment> \<open>\<^verbatim>\<open>for\s+.*in\s+\<close>\<close>
        lit ''.stream()'']),                        \<comment> \<open>\<^verbatim>\<open>\.stream\(\)\<close>\<close>
    (''security'',
       [lit ''encrypt'', lit ''decrypt'', lit ''hash'', lit ''ssl'', lit ''https'',
        lit ''certificate'']),
    (''performance'',
       [lit ''cache'', lit ''optimize'', lit ''performance'', lit ''benchmark'', lit ''profile'']),
    (''refactoring'',
       [lit ''TODO'', lit ''FIXME'', lit ''deprecated'', lit ''@Deprecated'', lit ''# TODO''])]\<close>

definition complexity_high :: "regex list" where
  \<open>complexity_high =
   [lit ''for'' @ [sp, dots] @ lit ''for'' @ [sp],         \<comment> \<open>\<^verbatim>\<open>for\s+.*for\s+\<close>\<close>
    lit ''while'' @ [sp, dots] @ lit ''while'' @ [sp],     \<comment> \<open>\<^verbatim>\<open>while\s+.*while\s+\<close>\<close>
    lit ''if'' @ [sp, dots] @ lit ''if'' @ [sp, dots] @ lit ''if'' @ [sp],
                                                           \<comment> \<open>\<^verbatim>\<open>if\s+.*if\s+.*if\s+\<close>\<close>
    lit ''try'' @ [sp, dots] @ lit ''except'' @ [sp, dots] @ lit ''except'' @ [sp],
                                                           \<comment> \<open>\<^verbatim>\<open>try\s+.*except\s+.*except\s+\<close>\<close>
    lit ''switch'' @ [sp, dots] @ lit ''case'' @ [sp, dots] @ lit ''case'' @ [sp, dots]
      @ lit ''case'' @ [sp]]\<close>                  \<comment> \<open>\<^verbatim>\<open>switch\s+.*case\s+.*case\s+.*case\s+\<close>\<close>

definition complexity_medium :: "regex list" where
  \<open>complexity_medium =
   [lit ''for'' @ [sp, dots] @ lit ''in'' @ [sp],          \<comment> \<open>\<^verbatim>\<open>for\s+.*in\s+\<close>\<close>
    lit ''while'' @ [sp],                                  \<comment> \<open>\<^verbatim>\<open>while\s+\<close>\<close>
    lit ''if'' @ [sp, dots] @ lit ''else'' @ [sp],         \<comment> \<open>\<^verbatim>\<open>if\s+.*else\s+\<close>\<close>
    lit ''try'' @ [sp, dots] @ lit ''except'' @ [sp],      \<comment> \<open>\<^verbatim>\<open>try\s+.*except\s+\<close>\<close>
    lit ''switch'' @ [sp, dots] @ lit ''case'' @ [sp],     \<comment> \<open>\<^verbatim>\<open>switch\s+.*case\s+\<close>\<close>
    lit ''class'' @ [sp, dots] @ lit ''extends'' @ [sp]]\<close>  \<comment> \<open>\<^verbatim>\<open>class\s+.*extends\s+\<close>\<close>

definition complexity_low :: "regex list" where
  \<open>complexity_low =
   [lit ''def'' @ [sp, wd],                                \<comment> \<open>\<^verbatim>\<open>def\s+\w+\<close>\<close>
    lit ''function'' @ [sp, wd],                           \<comment> \<open>\<^verbatim>\<open>function\s+\w+\<close>\<close>
    lit ''var'' @ [sp, wd],                                \<comment> \<open>\<^verbatim>\<open>var\s+\w+\<close>\<close>
    lit ''let'' @ [sp, wd],                                \<comment> \<open>\<^verbatim>\<open>let\s+\w+\<close>\<close>
    lit ''const'' @ [sp, wd]]\<close>                             \<comment> \<open>\<^verbatim>\<open>const\s+\w+\<close>\<close>

definition complexity_indicators :: "(string \<times> regex list) list" where
  "complexity_indicators =
   [(''high'', complexity_high), (''medium'', complexity_medium), (''low'', complexity_low)]"

definition functionality_keywords :: "(string \<times> string list) list" where
  \<comment> \<open>the local table of \<^verbatim>\<open>analyze_functionality\<close>\<close>
  "functionality_keywords =
   [(''authentication'', [''login'', ''password'', ''auth'', ''token'', ''session'', ''jwt'']),
    (''database'', [''query'', ''select'', ''insert'', ''update'', ''delete'', ''database'', ''sql'']),
    (''api'', [''endpoint'', ''route'', ''request'', ''response'', ''api'', ''rest'']),
    (''ui'', [''component'', ''render'', ''view'', ''template'', ''html'', ''css'']),
    (''testing'', [''test'', ''assert'', ''expect'', ''mock'', ''unittest'']),
    (''configuration'', [''config'', ''settings'', ''properties'', ''environment'']),
    (''data_processing'', [''process'', ''transform'', ''parse'', ''convert'', ''filter'']),
    (''utility'', [''helper'', ''util'', ''common'', ''shared'', ''library'']),
    (''business_logic'', [''calculate'', ''validate'', ''process'', ''handle'', ''manage'']),
    (''integration'', [''connect'', ''integrate'', ''sync'', ''import'', ''export''])]"

section \<open>The classification engine\<close>

fun max_by :: "('a \<Rightarrow> nat) \<Rightarrow> 'a \<Rightarrow> 'a list \<Rightarrow> 'a" where
  \<comment> \<open>the loop of Python's \<^verbatim>\<open>max\<close>: the running best is replaced only by a
      strictly larger item\<close>
  "max_by key best [] = best"
| "max_by key best (x # xs) = max_by key (if key best < key x then x else best) xs"

definition max_entry :: "('k \<times> nat) list \<Rightarrow> ('k \<times> nat) option" where
  \<comment> \<open>\<^verbatim>\<open>max(d, key=d.get)\<close> on a dictionary given by its items in iteration order,
      returned with its value; \<open>None\<close> is the empty dictionary, which the callers
      test for before they call \<^verbatim>\<open>max\<close>\<close>
  "max_entry d = (case d of [] \<Rightarrow> None | e # es \<Rightarrow> Some (max_by snd e es))"

subsection \<open>\<^verbatim>\<open>detect_language\<close>\<close>

definition language_score :: "regex list \<Rightarrow> string \<Rightarrow> string \<Rightarrow> nat" where
  \<comment> \<open>the inner loop: the file name is searched with \<^verbatim>\<open>re.IGNORECASE\<close>, the
      content with \<^verbatim>\<open>re.IGNORECASE | re.MULTILINE\<close>\<close>
  "language_score patterns file_name_lower code_content =
     fold (\<lambda>pattern score.
             (let score = (if re_search True False pattern file_name_lower
                           then score + 3 else score)
              in if re_search True True pattern code_content then score + 1 else score))
          patterns 0"

definition detect_language :: "string \<Rightarrow> string \<Rightarrow> string" where
  "detect_language file_name code_content =
     (let file_name_lower = str_lower file_name;
          language_scores =
            map (\<lambda>(language, patterns).
                   (language, language_score patterns file_name_lower code_content))
                language_patterns
      in case max_entry language_scores of
           None \<Rightarrow> ''unknown''
         | Some (detected_language, score) \<Rightarrow>
             if score > 0 then detected_language else ''unknown'')"

subsection \<open>\<^verbatim>\<open>detect_code_type\<close> and \<^verbatim>\<open>detect_patterns\<close>\<close>

definition code_type_score :: "regex list \<Rightarrow> string \<Rightarrow> nat" where
  "code_type_score patterns code_content =
     fold (\<lambda>pattern score. score + re_count True True pattern code_content) patterns 0"

definition detect_code_type :: "string \<Rightarrow> string" where
  \<comment> \<open>only the categories with a positive score enter \<^verbatim>\<open>code_type_scores\<close>\<close>
  "detect_code_type code_content =
     (let code_type_scores =
            filter (\<lambda>(code_type, score). score > 0)
              (map (\<lambda>(code_type, patterns). (code_type, code_type_score patterns code_content))
                   code_patterns)
      in case max_entry code_type_scores of
           None \<Rightarrow> ''general_code''
         | Some (code_type, score) \<Rightarrow> code_type)"

fun any_match :: "regex list \<Rightarrow> string \<Rightarrow> bool" where
  \<comment> \<open>the inner loop of \<^verbatim>\<open>detect_patterns\<close>, left at the first match\<close>
  "any_match [] code_content = False"
| "any_match (pattern # patterns) code_content =
     (if re_search True True pattern code_content then True
      else any_match patterns code_content)"

definition detect_patterns :: "string \<Rightarrow> string list" where
  "detect_patterns code_content =
     map fst (filter (\<lambda>(pattern_name, patterns). any_match patterns code_content)
                     code_patterns)"

subsection \<open>\<^verbatim>\<open>assess_complexity\<close>\<close>

definition count_level ::
  "string \<Rightarrow> regex list \<Rightarrow> string \<Rightarrow> (string \<Rightarrow> nat) \<Rightarrow> (string \<Rightarrow> nat)" where
  "count_level level patterns code_content scores =
     fold (\<lambda>pattern sc. sc(level := sc level + re_count True True pattern code_content))
          patterns scores"

definition complexity_scores :: "string \<Rightarrow> (string \<Rightarrow> nat)" where
  \<comment> \<open>the dictionary starts with 0 for each of the three levels\<close>
  "complexity_scores code_content =
     fold (\<lambda>(level, patterns) scores. count_level level patterns code_content scores)
          complexity_indicators (\<lambda>level. 0)"

definition comment_markers :: "string list" where
  "comment_markers = [''#'', ''//'', ''/*'', ''*'']"

fun starts_with_any :: "string list \<Rightarrow> string \<Rightarrow> bool" where
  \<comment> \<open>\<^verbatim>\<open>s.startswith(tuple)\<close>\<close>
  "starts_with_any [] s = False"
| "starts_with_any (p # ps) s = (starts_with p s \<or> starts_with_any ps s)"

definition code_lines :: "string \<Rightarrow> string list" where
  "code_lines code_content =
     filter (\<lambda>line. str_strip line \<noteq> [] \<and> \<not> starts_with_any comment_markers (str_strip line))
            (split_on nl code_content)"

definition assess_complexity :: "string \<Rightarrow> string" where
  "assess_complexity code_content =
     (let scores = complexity_scores code_content;
          weighted_score = scores ''high'' * 3 + scores ''medium'' * 2 + scores ''low'' * 1;
          loc = length (code_lines code_content)
      in if weighted_score > 10 \<or> loc > 100 then ''high''
         else if weighted_score > 5 \<or> loc > 50 then ''medium''
         else ''low'')"

subsection \<open>\<^verbatim>\<open>analyze_functionality\<close>\<close>

definition keyword_regex :: "string \<Rightarrow> regex" where
  \<comment> \<open>\<^verbatim>\<open>r'\b' + keyword + r'\b'\<close>; the keywords are plain lower-case words\<close>
  "keyword_regex keyword = [Bnd] @ lit keyword @ [Bnd]"

definition functionality_score :: "string list \<Rightarrow> string \<Rightarrow> string \<Rightarrow> nat" where
  \<comment> \<open>\<^verbatim>\<open>re.findall\<close> is called without flags here\<close>
  "functionality_score keywords code_lower file_lower =
     fold (\<lambda>keyword score.
             (let score = score + re_count False False (keyword_regex keyword) code_lower
              in if is_infix keyword file_lower then score + 3 else score))
          keywords 0"

definition analyze_functionality :: "string \<Rightarrow> string \<Rightarrow> string \<Rightarrow> string" where
  "analyze_functionality code_content file_name language =
     (let code_lower = str_lower code_content;
          file_lower = str_lower file_name;
          functionality_scores =
            map (\<lambda>(func_type, keywords).
                   (func_type, functionality_score keywords code_lower file_lower))
                functionality_keywords
      in case max_entry functionality_scores of
           None \<Rightarrow> ''General Purpose Code''
         | Some (primary_function, score) \<Rightarrow>
             if score > 0 then str_title (replace_char (CHR ''_'') (CHR '' '') primary_function)
             else ''General Purpose Code'')"

subsection \<open>\<^verbatim>\<open>generate_summary\<close>\<close>

definition pattern_desc :: "string list \<Rightarrow> string" where
  "pattern_desc patterns =
     (if patterns \<noteq> [] then
        (let top_patterns = take 3 patterns;
             desc = '' with '' @ join_with '', '' (take 2 top_patterns)
         in if length top_patterns > 2 then desc @ '' and '' @ top_patterns ! 2 else desc)
      else [])"

definition change_desc :: "int \<Rightarrow> int \<Rightarrow> string" where
  "change_desc lines_added lines_deleted =
     (if lines_added > 0 \<and> lines_deleted > 0 then
        ''Modified code (+'' @ str_of_int lines_added @ ''/-'' @ str_of_int lines_deleted
          @ '' lines)''
      else if lines_added > 0 then ''Added '' @ str_of_int lines_added @ '' lines of code''
      else if lines_deleted > 0 then ''Removed '' @ str_of_int lines_deleted @ '' lines of code''
      else ''Code structure changes'')"

definition generate_summary ::
  "string \<Rightarrow> string \<Rightarrow> string \<Rightarrow> string \<Rightarrow> string list \<Rightarrow> int \<Rightarrow> int \<Rightarrow> string" where
  "generate_summary language code_type functionality complexity patterns lines_added
       lines_deleted =
     (let summary = change_desc lines_added lines_deleted @ '' in '' @ str_title language
                      @ '' for '' @ str_lower functionality;
          summary = (if pattern_desc patterns \<noteq> [] then summary @ pattern_desc patterns
                     else summary)
      in summary @ ''. Code complexity is '' @ complexity @ ''.'')"

subsection \<open>\<^verbatim>\<open>calculate_confidence\<close>\<close>

text \<open>
  The confidence is a Python float built from the literals 0.3, 0.2 and 0.1.
  It is modelled in exact arithmetic over \<^typ>\<open>real\<close>, the literals read as
  exact tenths.
\<close>

definition non_blank_lines :: "string \<Rightarrow> nat" where
  "non_blank_lines code_content =
     length (filter (\<lambda>line. str_strip line \<noteq> []) (split_on nl code_content))"

definition calculate_confidence :: "string \<Rightarrow> string \<Rightarrow> string list \<Rightarrow> string \<Rightarrow> real" where
  "calculate_confidence language code_type patterns code_content =
     (let confidence = 0;
          confidence = (if language \<noteq> ''unknown'' then confidence + 3 / 10 else confidence);
          confidence = (if code_type \<noteq> ''general_code'' then confidence + 2 / 10
                        else confidence);
          confidence = (if patterns \<noteq> []
                        then confidence + min (3 / 10) (real (length patterns) * (1 / 10))
                        else confidence);
          code_lines = non_blank_lines code_content;
          confidence = (if code_lines > 5 then confidence + 1 / 10 else confidence);
          confidence = (if code_lines > 20 then confidence + 1 / 10 else confidence)
      in min 1 confidence)"

subsection \<open>\<^verbatim>\<open>analyze_code_diff\<close>\<close>

record AnalysisResult =
  language :: string
  codeType :: string
  functionality :: string
  complexity :: string
  patterns :: "string list"
  confidence :: real
  summary :: string

definition analyze_code_diff ::
  "string \<Rightarrow> string \<Rightarrow> string \<Rightarrow> 'd \<Rightarrow> int \<Rightarrow> int \<Rightarrow> AnalysisResult" where
  \<comment> \<open>\<open>full_diff\<close> is a parameter that the body never reads; its type is left open\<close>
  "analyze_code_diff file_name added_code deleted_code full_diff lines_added lines_deleted =
     (let combined_code = added_code @ [nl] @ deleted_code;
          lang = detect_language file_name combined_code;
          code_type = detect_code_type combined_code;
          pats = detect_patterns combined_code;
          cplx = assess_complexity combined_code;
          func = analyze_functionality combined_code file_name lang;
          conf = calculate_confidence lang code_type pats combined_code;
          summ = generate_summary lang code_type func cplx pats lines_added lines_deleted
      in \<lparr> language = lang, codeType = code_type, functionality = func, complexity = cplx,
           patterns = pats, confidence = conf, summary = summ \<rparr>)"

section \<open>The HTTP boundary\<close>

text \<open>
  The two POST handlers read the request body with \<^verbatim>\<open>request.get_json()\<close> and
  pass its fields to the analyzer unchecked, so a field can hold any JSON value.
  The body is modelled as a JSON object, given by its items; JSON booleans and
  non-integer numbers are left out of the value type.  Where the analyzer
  applies a string or number operation to a value of another type, Python
  raises, and the model returns the exception.
\<close>

datatype jv = JStr string | JInt int | JNull | JArr "jv list" | JObj "(string \<times> jv) list"

datatype py_exception = TypeError | AttributeError

fun truthy :: "jv \<Rightarrow> bool" where
  \<comment> \<open>Python's truth value, as \<^verbatim>\<open>not v\<close> tests it\<close>
  "truthy (JStr s) = (s \<noteq> [])"
| "truthy (JInt i) = (i \<noteq> 0)"
| "truthy JNull = False"
| "truthy (JArr xs) = (xs \<noteq> [])"
| "truthy (JObj kvs) = (kvs \<noteq> [])"

definition dict_get :: "(string \<times> jv) list \<Rightarrow> string \<Rightarrow> jv \<Rightarrow> jv" where
  \<comment> \<open>\<^verbatim>\<open>d.get(key, default)\<close>\<close>
  "dict_get d key dflt = (case map_of d key of None \<Rightarrow> dflt | Some v \<Rightarrow> v)"

definition analyze_code_diff_dyn ::
  "jv \<Rightarrow> jv \<Rightarrow> jv \<Rightarrow> jv \<Rightarrow> jv \<Rightarrow> jv \<Rightarrow> py_exception + AnalysisResult" where
  \<comment> \<open>\<^verbatim>\<open>analyze_code_diff\<close> on unchecked values.  In the order of the body:
      the concatenation of \<^verbatim>\<open>added_code\<close>, a newline and \<^verbatim>\<open>deleted_code\<close> raises
      TypeError unless both are strings;
      \<^verbatim>\<open>file_name.lower()\<close> raises AttributeError unless the name is a string;
      \<^verbatim>\<open>lines_added > 0\<close> and \<^verbatim>\<open>lines_deleted > 0\<close>, both reached on every path of
      \<^verbatim>\<open>generate_summary\<close>, raise TypeError unless they are numbers\<close>
  "analyze_code_diff_dyn file_name added_code deleted_code full_diff lines_added lines_deleted =
     (case (added_code, deleted_code) of
        (JStr a, JStr d) \<Rightarrow>
          (case file_name of
             JStr f \<Rightarrow>
               (case (lines_added, lines_deleted) of
                  (JInt la, JInt ld) \<Rightarrow> Inr (analyze_code_diff f a d full_diff la ld)
                | _ \<Rightarrow> Inl TypeError)
           | _ \<Rightarrow> Inl AttributeError)
      | _ \<Rightarrow> Inl TypeError)"

subsection \<open>\<^verbatim>\<open>POST /analyze-code\<close>\<close>

datatype response =
    BadRequest string          \<comment> \<open>status 400 with the error message\<close>
  | Ok AnalysisResult          \<comment> \<open>status 200 with the result\<close>
  | ServerError py_exception   \<comment> \<open>status 500, from the handler's \<^verbatim>\<open>except Exception\<close>\<close>

definition analyze_code :: "(string \<times> jv) list \<Rightarrow> response" where
  "analyze_code data =
     (if data = [] then BadRequest ''No JSON data provided''
      else
        (let file_name = dict_get data ''fileName'' (JStr []);
             added_code = dict_get data ''addedCode'' (JStr []);
             deleted_code = dict_get data ''deletedCode'' (JStr []);
             full_diff = dict_get data ''fullDiff'' (JStr []);
             lines_added = dict_get data ''linesAdded'' (JInt 0);
             lines_deleted = dict_get data ''linesDeleted'' (JInt 0)
         in if \<not> truthy file_name then BadRequest ''fileName is required''
            else if \<not> truthy added_code \<and> \<not> truthy deleted_code \<and> \<not> truthy full_diff
            then BadRequest ''At least one of addedCode, deletedCode, or fullDiff is required''
            else (case analyze_code_diff_dyn file_name added_code deleted_code full_diff
                         lines_added lines_deleted of
                    Inr result \<Rightarrow> Ok result
                  | Inl e \<Rightarrow> ServerError e)))"

subsection \<open>\<^verbatim>\<open>POST /analyze-batch\<close>\<close>

datatype batch_element =
    ItemResult jv AnalysisResult   \<comment> \<open>the result fields and \<^verbatim>\<open>fileName\<close>\<close>
  | ItemError jv py_exception      \<comment> \<open>\<^verbatim>\<open>fileName\<close> and \<^verbatim>\<open>error\<close>\<close>

datatype batch_response =
    BatchBadRequest string
  | BatchOk "batch_element list"
  | BatchServerError py_exception

definition analyze_item :: "(string \<times> jv) list \<Rightarrow> batch_element" where
  \<comment> \<open>the body of the loop for an item that is a JSON object: the inner
      \<^verbatim>\<open>try\<close> and its \<^verbatim>\<open>except Exception\<close>\<close>
  "analyze_item file_data =
     (case analyze_code_diff_dyn
             (dict_get file_data ''fileName'' (JStr []))
             (dict_get file_data ''addedCode'' (JStr []))
             (dict_get file_data ''deletedCode'' (JStr []))
             (dict_get file_data ''fullDiff'' (JStr []))
             (dict_get file_data ''linesAdded'' (JInt 0))
             (dict_get file_data ''linesDeleted'' (JInt 0)) of
        Inr result \<Rightarrow> ItemResult (dict_get file_data ''fileName'' (JStr [])) result
      | Inl e \<Rightarrow> ItemError (dict_get file_data ''fileName'' (JStr [])) e)"

fun batch_loop :: "jv list \<Rightarrow> batch_element list \<Rightarrow> py_exception + batch_element list" where
  \<comment> \<open>an item that is no object has no \<^verbatim>\<open>get\<close>: the call raises AttributeError in
      the \<^verbatim>\<open>try\<close> and again in its handler, which leaves the loop\<close>
  "batch_loop [] results = Inr results"
| "batch_loop (JObj file_data # files) results =
     batch_loop files (results @ [analyze_item file_data])"
| "batch_loop (other # files) results = Inl AttributeError"

definition analyze_batch :: "(string \<times> jv) list \<Rightarrow> batch_response" where
  "analyze_batch data =
     (if data = [] then BatchBadRequest ''files array is required''
      else
        (case map_of data ''files'' of
           None \<Rightarrow> BatchBadRequest ''files array is required''
         | Some (JArr files) \<Rightarrow>
             (case batch_loop files [] of
                Inr results \<Rightarrow> BatchOk results
              | Inl e \<Rightarrow> BatchServerError e)
         | Some other \<Rightarrow> BatchBadRequest ''files must be an array''))"

declare search_from.simps [simp del]

declare count_from.simps [simp del]

section \<open>Notions of the specification\<close>

text \<open>
  The specification speaks of the number of patterns of a group that match a
  text, of the number of occurrences of a group's patterns in a text, and of the
  first category with the maximal score.  These are stated here on their own,
  to be compared with the loops of the source.
\<close>

definition pattern_hits :: "bool \<Rightarrow> regex list \<Rightarrow> string \<Rightarrow> nat" where
  \<comment> \<open>how many patterns of the group match somewhere in the text (presence)\<close>
  "pattern_hits ml ps text = length (filter (\<lambda>p. re_search True ml p text) ps)"

definition language_score_spec :: "regex list \<Rightarrow> string \<Rightarrow> string \<Rightarrow> nat" where
  \<comment> \<open>3 per pattern that matches the file name, 1 per pattern that matches the text\<close>
  "language_score_spec ps file_name text =
     3 * pattern_hits False ps file_name + pattern_hits True ps text"

definition occurrences :: "regex list \<Rightarrow> string \<Rightarrow> nat" where
  \<comment> \<open>the matches of all patterns of the group in the text, counted with multiplicity\<close>
  "occurrences ps text = sum_list (map (\<lambda>p. re_count True True p text) ps)"

definition first_maximal :: "('k \<times> nat) list \<Rightarrow> ('k \<times> nat) option" where
  \<comment> \<open>the first entry, in the order of the list, whose score is the maximum\<close>
  "first_maximal kvs = find (\<lambda>e. snd e = Max (snd ` set kvs)) kvs"

definition patterns_of :: "string \<Rightarrow> regex list" where
  \<comment> \<open>the pattern group of a code-type category\<close>
  "patterns_of name = (case map_of code_patterns name of Some ps \<Rightarrow> ps | None \<Rightarrow> [])"

section \<open>Example inputs\<close>

definition three_selects :: string where
  \<comment> \<open>three \<^verbatim>\<open>SELECT ... FROM\<close> statements on lines of their own and one route decorator\<close>
  "three_selects = ''SELECT a FROM t'' @ [nl] @ ''SELECT b FROM u'' @ [nl] @ ''SELECT c FROM v''
                     @ [nl] @ ''@app.route''"

definition one_line_selects :: string where
  \<comment> \<open>the same statements on a single line\<close>
  "one_line_selects = ''SELECT a FROM t; SELECT b FROM u; SELECT c FROM v; @app.route''"

definition rich_body :: string where
  \<comment> \<open>twenty short lines and a line of Python test code\<close>
  "rich_body = concat (replicate 20 (''x'' @ [nl])) @ ''def test_login(): print(token); assert hash''"





definition three_files :: "(string \<times> jv) list list" where
  \<comment> \<open>a batch whose second item has \<^verbatim>\<open>null\<close> for its added text\<close>
  "three_files =
     [[(''fileName'', JStr ''a.py''), (''addedCode'', JStr ''x = 1'')],
      [(''fileName'', JStr ''b.py''), (''addedCode'', JNull)],
      [(''fileName'', JStr ''c.py''), (''deletedCode'', JStr ''y = 2''), (''linesDeleted'', JInt 1)]]"

definition empty_item :: "int \<Rightarrow> int \<Rightarrow> (string \<times> jv) list" where
  \<comment> \<open>an item with an empty file name and three empty texts\<close>
  "empty_item la ld =
     [(''fileName'', JStr []), (''addedCode'', JStr []), (''deletedCode'', JStr []),
      (''fullDiff'', JStr []), (''linesAdded'', JInt la), (''linesDeleted'', JInt ld)]"

definition batch_with_null :: "(string \<times> jv) list" where
  \<comment> \<open>a batch of three files whose second item is \<^verbatim>\<open>null\<close>\<close>
  "batch_with_null =
     [(''files'',
       JArr [JObj [(''fileName'', JStr ''a.py''), (''addedCode'', JStr ''x = 1'')],
             JNull,
             JObj [(''fileName'', JStr ''c.py''), (''addedCode'', JStr ''y = 2'')]])]"

section \<open>Character classes on the bits of a character\<close>

text \<open>
  The character classes are defined by ranges of code points.  For evaluation
  they are restated on the eight bits of a character, least significant first.
\<close>

lemma is_upper_code [code]:
  "is_upper (Char b0 b1 b2 b3 b4 b5 b6 b7) = (\<not> b7 \<and> b6 \<and> \<not> b5 \<and> low5_letter b0 b1 b2 b3 b4)"
  by (cases b0; cases b1; cases b2; cases b3; cases b4; cases b5; cases b6; cases b7;
      simp add: is_upper_def low5_letter_def)

lemma is_lower_code [code]:
  "is_lower (Char b0 b1 b2 b3 b4 b5 b6 b7) = (\<not> b7 \<and> b6 \<and> b5 \<and> low5_letter b0 b1 b2 b3 b4)"
  by (cases b0; cases b1; cases b2; cases b3; cases b4; cases b5; cases b6; cases b7;
      simp add: is_lower_def low5_letter_def)

lemma is_digit_code [code]:
  "is_digit (Char b0 b1 b2 b3 b4 b5 b6 b7) = (\<not> b7 \<and> \<not> b6 \<and> b5 \<and> b4 \<and> \<not> (b3 \<and> (b2 \<or> b1)))"
  by (cases b0; cases b1; cases b2; cases b3; cases b4; cases b5; cases b6; cases b7;
      simp add: is_digit_def)

lemma is_space_code [code]:
  "is_space (Char b0 b1 b2 b3 b4 b5 b6 b7) =
     (\<not> b7 \<and> \<not> b6 \<and>
       ((\<not> b5 \<and> \<not> b4 \<and> b3 \<and> ((\<not> b2 \<and> (b1 \<or> b0)) \<or> (b2 \<and> \<not> b1)))
        \<or> (\<not> b5 \<and> b4 \<and> b3 \<and> b2)
        \<or> (b5 \<and> \<not> b4 \<and> \<not> b3 \<and> \<not> b2 \<and> \<not> b1 \<and> \<not> b0)))"
  by (cases b0; cases b1; cases b2; cases b3; cases b4; cases b5; cases b6; cases b7;
      simp add: is_space_def)

lemma lower_char_code [code]:
  "lower_char (Char b0 b1 b2 b3 b4 b5 b6 b7) =
     (if \<not> b7 \<and> b6 \<and> \<not> b5 \<and> low5_letter b0 b1 b2 b3 b4 then Char b0 b1 b2 b3 b4 True b6 b7
      else Char b0 b1 b2 b3 b4 b5 b6 b7)"
  by (cases b0; cases b1; cases b2; cases b3; cases b4; cases b5; cases b6; cases b7;
      simp add: lower_char_def is_upper_def low5_letter_def char_of_eq_iff)

lemma upper_char_code [code]:
  "upper_char (Char b0 b1 b2 b3 b4 b5 b6 b7) =
     (if \<not> b7 \<and> b6 \<and> b5 \<and> low5_letter b0 b1 b2 b3 b4 then Char b0 b1 b2 b3 b4 False b6 b7
      else Char b0 b1 b2 b3 b4 b5 b6 b7)"
  by (cases b0; cases b1; cases b2; cases b3; cases b4; cases b5; cases b6; cases b7;
      simp add: upper_char_def is_lower_def low5_letter_def char_of_eq_iff)

section \<open>Case-insensitive search does not depend on the case of an ASCII text\<close>

lemma of_char_lower:
  "of_char (lower_char c) = (if is_upper c then of_char c + 32 else (of_char c :: nat))"
  by (simp add: lower_char_def is_upper_def Let_def)

lemma is_upper_lower [simp]: "\<not> is_upper (lower_char c)"
  by (simp add: is_upper_def of_char_lower Let_def)

lemma lower_char_idem [simp]: "lower_char (lower_char c) = lower_char c"
  by (subst (1) lower_char_def) simp

lemma is_space_lower [simp]: "is_space (lower_char c) = is_space c"
  by (auto simp add: is_space_def of_char_lower Let_def is_upper_def)

lemma lower_eq_underscore: "(lower_char c = CHR ''_'') = (c = CHR ''_'')"
proof (cases "is_upper c")
  case True
  have "of_char (lower_char c) \<noteq> (95::nat)" "of_char c \<noteq> (95::nat)"
    using True by (auto simp: of_char_lower is_upper_def Let_def)
  then show ?thesis by auto
next
  case False
  then show ?thesis by (simp add: lower_char_def)
qed

lemma is_word_lower [simp]: "is_word (lower_char c) = is_word c"
  unfolding is_word_def lower_eq_underscore
  by (auto simp add: is_lower_def is_digit_def of_char_lower Let_def is_upper_def)

lemma lower_eq_nl [simp]: "(lower_char c = nl) = (c = nl)"
proof (cases "is_upper c")
  case True
  have "of_char (lower_char c) \<noteq> (10::nat)" "of_char c \<noteq> (10::nat)"
    using True by (auto simp: of_char_lower is_upper_def Let_def)
  then show ?thesis by (auto simp: nl_def)
next
  case False
  then show ?thesis by (simp add: lower_char_def)
qed

lemma char_eq_lower [simp]: "char_eq True x (lower_char c) = char_eq True x c"
  by (simp add: char_eq_def)

lemma class_match_lower [simp]: "class_match True xs (lower_char c) = class_match True xs c"
proof (induction xs)
  case Nil
  show ?case by simp
next
  case (Cons x xs)
  have "citem_match True x (lower_char c) = citem_match True x c"
    by (cases x) simp_all
  then show ?case using Cons by simp
qed

lemma amatch_lower [simp]: "amatch True a (lower_char c) = amatch True a c"
  by (cases a) simp_all

lemma at_eol_lower [simp]: "at_eol ml (map lower_char s) = at_eol ml s"
  by (cases s) simp_all

lemma at_boundary_lower [simp]:
  "at_boundary (map_option lower_char p) (map lower_char s) = at_boundary p s"
  by (cases p; cases s) simp_all

lemma match_lits_lower:
  "match_lits True as (map_option lower_char p) (map lower_char s)
     = map_option (\<lambda>(p', s'). (map_option lower_char p', map lower_char s'))
         (match_lits True as p s)"
proof (induction as arbitrary: p s)
  case Nil
  show ?case by simp
next
  case (Cons a as)
  show ?case
  proof (cases s)
    case Nil
    then show ?thesis by simp
  next
    case (Cons c cs)
    then show ?thesis using Cons.IH [of "Some c" cs] by simp
  qed
qed

lemma match_here_lower:
  "match_here True ml r (map_option lower_char p) (map lower_char s)
     = map_option (\<lambda>(p', s'). (map_option lower_char p', map lower_char s'))
         (match_here True ml r p s)"
proof (induction "True" ml r p s rule: match_here.induct)
  case (1 ml p s)
  show ?case by simp
next
  case (2 ml a r p s)
  then show ?case by (cases s) simp_all
next
  case (3 ml a r p s)
  then show ?case by (cases s) (auto split: option.splits)
next
  case (4 ml a r p s)
  then show ?case by (cases s) simp_all
next
  case (5 ml a r p s)
  then show ?case by (cases s) (auto split: option.splits)
next
  case (6 ml r p s)
  then show ?case by simp
next
  case (7 ml r p s)
  then show ?case by simp
next
  case (8 ml r p s)
  show ?case by simp
next
  case (9 ml l ls r p s)
  show ?case
  proof (cases "match_lits True l p s")
    case None
    then show ?thesis using 9(1) by (simp add: match_lits_lower)
  next
    case (Some ps)
    obtain p' s' where ps: "ps = (p', s')" by (cases ps)
    show ?thesis
      using Some ps 9(2) [OF Some ps [symmetric]] 9(3) [OF Some ps [symmetric]]
      by (auto simp add: match_lits_lower split: option.splits)
  qed
qed

lemma search_from_lower:
  "search_from True ml r (map_option lower_char p) (map lower_char s) = search_from True ml r p s"
proof (induction s arbitrary: p)
  case Nil
  show ?case
    using match_here_lower [of ml r p "[]"]
    by (auto simp add: search_from.simps [of _ _ _ _ "[]"] split: option.splits)
next
  case (Cons c cs)
  show ?case
    using match_here_lower [of ml r p "c # cs"] Cons [of "Some c"]
    by (auto simp add: search_from.simps [of _ _ _ _ "_ # _"] split: option.splits)
qed

lemma re_search_lower:
  "is_ascii s \<Longrightarrow> re_search True ml r (str_lower s) = re_search True ml r s"
  using search_from_lower [of ml r None s] by (simp add: re_search_def str_lower_def)

section \<open>The loops of the engine\<close>

lemma Max_two: "finite S \<Longrightarrow> Max (insert (a::nat) (insert b S)) = Max (insert (max a b) S)"
  by (cases "S = {}") (simp_all add: max.assoc)

lemma max_by_first:
  "find (\<lambda>e. key e = Max (key ` set (b # xs))) (b # xs) = Some (max_by key b xs)"
proof (induction xs arbitrary: b)
  case Nil
  show ?case by simp
next
  case (Cons x xs)
  define b' where "b' = (if key b < key x then x else b)"
  define M where "M = Max (key ` set (b # x # xs))"
  have M: "M = Max (key ` set (b' # xs))"
    unfolding M_def b'_def
    using Max_two [of "key ` set xs" "key b" "key x"] by (auto simp: max_def)
  have ub: "key b \<le> M" "key x \<le> M"
    unfolding M_def by (rule Max_ge; simp)+
  have IH: "find (\<lambda>e. key e = M) (b' # xs) = Some (max_by key b' xs)"
    using Cons.IH [of b'] M by simp
  have step: "max_by key b (x # xs) = max_by key b' xs"
    by (simp add: b'_def)
  have "find (\<lambda>e. key e = M) (b # x # xs) = Some (max_by key b' xs)"
  proof (cases "key b < key x")
    case True
    then have "key b \<noteq> M" using ub by linarith
    then show ?thesis using IH True by (simp add: b'_def)
  next
    case False
    show ?thesis
    proof (cases "key b = M")
      case True
      then show ?thesis using IH False by (simp add: b'_def)
    next
      case nb: False
      then have "key x \<noteq> M" using False ub by linarith
      then show ?thesis using IH False nb by (simp add: b'_def)
    qed
  qed
  then show ?case unfolding step M_def .
qed

lemma max_entry_first_maximal: "max_entry kvs = first_maximal kvs"
proof (cases kvs)
  case Nil
  then show ?thesis by (simp add: max_entry_def first_maximal_def)
next
  case (Cons e es)
  then show ?thesis
    using max_by_first [of snd e es] by (simp add: max_entry_def first_maximal_def)
qed

lemma first_maximal_in: "first_maximal kvs = Some e \<Longrightarrow> e \<in> set kvs \<and> snd e = Max (snd ` set kvs)"
  unfolding first_maximal_def by (auto simp add: find_Some_iff)

lemma first_maximal_nonempty: "kvs \<noteq> [] \<Longrightarrow> \<exists>e. first_maximal kvs = Some e"
proof -
  assume ne: "kvs \<noteq> []"
  then have "Max (snd ` set kvs) \<in> snd ` set kvs" by (intro Max_in) auto
  then obtain e where "e \<in> set kvs" "snd e = Max (snd ` set kvs)" by auto
  then have "find (\<lambda>e. snd e = Max (snd ` set kvs)) kvs \<noteq> None"
    unfolding find_None_iff by blast
  then show ?thesis by (auto simp add: first_maximal_def)
qed

lemma fold_language_score:
  "fold (\<lambda>pattern score.
           (let score = (if P pattern then score + 3 else score)
            in if Q pattern then score + 1 else score)) ps (acc::nat)
   = acc + 3 * length (filter P ps) + length (filter Q ps)"
  by (induction ps arbitrary: acc) (simp_all add: Let_def)

lemma language_score_fold:
  "language_score ps file_name_lower text = language_score_spec ps file_name_lower text"
  by (simp add: language_score_def language_score_spec_def pattern_hits_def
      fold_language_score)

lemma language_score_lower:
  assumes "is_ascii file_name"
  shows "language_score_spec ps (str_lower file_name) text
           = language_score_spec ps file_name text"
proof -
  have "filter (\<lambda>p. re_search True False p (str_lower file_name)) ps
          = filter (\<lambda>p. re_search True False p file_name) ps"
    using assms by (simp add: re_search_lower)
  then show ?thesis
    by (simp add: language_score_spec_def pattern_hits_def)
qed

lemma main_py_score:
  "is_ascii ''Main.PY''"
  "language_score_spec [lit ''.py'' @ [Eol]] (str_lower ''Main.PY'') [] = 3"
  by code_simp+

lemma fold_count: "fold (\<lambda>p (score::nat). score + f p) ps acc = acc + sum_list (map f ps)"
  by (induction ps arbitrary: acc) simp_all

lemma code_type_score_eq: "code_type_score ps text = occurrences ps text"
  by (simp add: code_type_score_def occurrences_def fold_count)

lemma count_level_eq:
  "count_level level ps text scores = scores(level := scores level + occurrences ps text)"
proof (induction ps arbitrary: scores)
  case Nil
  show ?case by (simp add: count_level_def occurrences_def)
next
  case (Cons p ps)
  have "count_level level (p # ps) text scores
          = count_level level ps text (scores(level := scores level + re_count True True p text))"
    by (simp add: count_level_def)
  then show ?case
    by (auto simp add: Cons.IH occurrences_def fun_eq_iff)
qed

lemma complexity_scores_eq:
  "complexity_scores text ''high'' = occurrences complexity_high text"
  "complexity_scores text ''medium'' = occurrences complexity_medium text"
  "complexity_scores text ''low'' = occurrences complexity_low text"
  by (simp_all add: complexity_scores_def complexity_indicators_def count_level_eq)

lemma assess_complexity_eq [code]:
  "assess_complexity text =
     (let weighted_score = occurrences complexity_high text * 3
            + occurrences complexity_medium text * 2 + occurrences complexity_low text * 1;
          loc = length (code_lines text)
      in if weighted_score > 10 \<or> loc > 100 then ''high''
         else if weighted_score > 5 \<or> loc > 50 then ''medium''
         else ''low'')"
  by (simp add: assess_complexity_def complexity_scores_eq Let_def)

lemma starts_with_prefix: "starts_with p s = prefix p s"
  by (induction p s rule: starts_with.induct) simp_all

lemma code_lines_eq:
  "code_lines text =
     filter (\<lambda>line. str_strip line \<noteq> [] \<and> \<not> prefix ''#'' (str_strip line)
                \<and> \<not> prefix ''//'' (str_strip line) \<and> \<not> prefix ''/*'' (str_strip line)
                \<and> \<not> prefix ''*'' (str_strip line))
            (split_on nl text)"
  by (simp add: code_lines_def comment_markers_def starts_with_prefix del: starts_with.simps)

lemma unknown_not_language: "''unknown'' \<notin> fst ` set language_patterns"
  by (simp add: language_patterns_def)

lemma detect_language_data_xyz:
  "detect_language ''data.xyz'' (''lorem ipsum'' @ [nl] @ []) = ''css''"
  by code_simp

lemma find_filter_implied:
  "(\<And>x. P x \<Longrightarrow> Q x) \<Longrightarrow> find P (filter Q xs) = find P xs"
  by (induction xs) auto

lemma Max_positive_filter:
  fixes kvs :: "('k \<times> nat) list"
  assumes "filter (\<lambda>e. 0 < snd e) kvs \<noteq> []"
  shows "Max (snd ` set (filter (\<lambda>e. 0 < snd e) kvs)) = Max (snd ` set kvs)"
proof -
  let ?pos = "filter (\<lambda>e. 0 < snd e) kvs"
  have ne: "snd ` set ?pos \<noteq> {}" using assms unfolding image_is_empty set_empty .
  have "Max (snd ` set ?pos) \<in> snd ` set ?pos" using ne by (intro Max_in) simp_all
  then have in_all: "Max (snd ` set ?pos) \<in> snd ` set kvs" by auto
  have "v \<le> Max (snd ` set ?pos)" if "v \<in> snd ` set kvs" for v
  proof (cases "0 < v")
    case True
    then have "v \<in> snd ` set ?pos" using that by auto
    then show ?thesis by (intro Max_ge) simp_all
  next
    case False
    then show ?thesis by simp
  qed
  then show ?thesis using in_all by (intro Max_eqI [symmetric]) simp_all
qed

lemma first_maximal_positive:
  fixes kvs :: "('k \<times> nat) list"
  shows "(case first_maximal (filter (\<lambda>(k, v). 0 < v) kvs) of
            None \<Rightarrow> d | Some (k, v) \<Rightarrow> k)
         = (case first_maximal kvs of
              None \<Rightarrow> d | Some (k, v) \<Rightarrow> if v = 0 then d else k)"
proof -
  let ?pos = "filter (\<lambda>e. 0 < snd e) kvs"
  have posf: "filter (\<lambda>(k, v). 0 < v) kvs = ?pos"
    by (simp add: case_prod_unfold)
  show ?thesis
  proof (cases "?pos = []")
    case True
    then have zero: "\<forall>e\<in>set kvs. snd e = 0" by (auto simp add: filter_empty_conv)
    show ?thesis
    proof (cases "first_maximal kvs")
      case None
      then show ?thesis using True by (simp add: posf first_maximal_def)
    next
      case (Some e)
      then have "snd e = 0" using first_maximal_in [OF Some] zero by blast
      then show ?thesis using True Some by (cases e) (simp add: posf first_maximal_def)
    qed
  next
    case False
    define M where "M = Max (snd ` set kvs)"
    have MM: "Max (snd ` set ?pos) = M"
      unfolding M_def using Max_positive_filter [OF False] .
    have "snd ` set ?pos \<noteq> {}" using False unfolding image_is_empty set_empty .
    then have "Max (snd ` set ?pos) \<in> snd ` set ?pos" by (intro Max_in) simp_all
    then have "M \<in> snd ` set ?pos" unfolding MM .
    then have Mpos: "0 < M" by auto
    have same: "first_maximal ?pos = first_maximal kvs"
      unfolding first_maximal_def MM M_def [symmetric]
      using Mpos by (intro find_filter_implied) simp
    obtain e where e: "first_maximal kvs = Some e"
      using same first_maximal_nonempty [OF False] by auto
    have "snd e = M" using first_maximal_in [OF e] by (simp add: M_def)
    then show ?thesis using same e Mpos by (cases e) (simp add: posf)
  qed
qed

lemma first_maximalI:
  fixes kvs :: "('k \<times> nat) list"
  assumes "find (\<lambda>e. snd e = snd r) kvs = Some r" and "\<forall>e\<in>set kvs. snd e \<le> snd r"
  shows "first_maximal kvs = Some r"
proof -
  have "r \<in> set kvs" using assms(1) by (auto simp add: find_Some_iff)
  then have "Max (snd ` set kvs) = snd r"
    using assms(2) by (intro Max_eqI) auto
  then show ?thesis using assms(1) by (simp add: first_maximal_def)
qed

lemma detect_code_type_eq:
  "detect_code_type text =
     (case first_maximal (map (\<lambda>(name, ps). (name, occurrences ps text)) code_patterns) of
        None \<Rightarrow> ''general_code''
      | Some (name, score) \<Rightarrow> if score = 0 then ''general_code'' else name)"
  unfolding detect_code_type_def Let_def max_entry_first_maximal code_type_score_eq
  using first_maximal_positive
          [where kvs = "map (\<lambda>(name, ps). (name, occurrences ps text)) code_patterns"
             and d = "''general_code''"]
  by (simp add: case_prod_unfold)

lemma code_patterns_head:
  "code_patterns = (''api_endpoint'', patterns_of ''api_endpoint'')
      # (''database_query'', patterns_of ''database_query'') # drop 2 code_patterns"
  by (simp add: code_patterns_def patterns_of_def)

lemma code_patterns_distinct: "distinct (map fst code_patterns)"
  by (simp add: code_patterns_def)


lemma three_selects_scores:
  "map (\<lambda>(name, ps). (name, occurrences ps three_selects)) code_patterns =
     [(''api_endpoint'', 1), (''database_query'', 3), (''test_code'', 0), (''configuration'', 0),
      (''authentication'', 0), (''error_handling'', 0), (''logging'', 0), (''async_code'', 0),
      (''ui_component'', 0), (''data_processing'', 0), (''security'', 0), (''performance'', 0),
      (''refactoring'', 0)]"
  by code_simp

lemma one_line_selects_scores:
  "map (\<lambda>(name, ps). (name, occurrences ps one_line_selects)) code_patterns =
     [(''api_endpoint'', 1), (''database_query'', 1), (''test_code'', 0), (''configuration'', 0),
      (''authentication'', 0), (''error_handling'', 0), (''logging'', 0), (''async_code'', 0),
      (''ui_component'', 0), (''data_processing'', 0), (''security'', 0), (''performance'', 0),
      (''refactoring'', 0)]"
  by code_simp

lemma one_line_selects_code_type: "detect_code_type one_line_selects = ''api_endpoint''"
  unfolding detect_code_type_eq one_line_selects_scores first_maximal_def by simp

section \<open>The result record\<close>

lemma rich_language: "detect_language ''app.py'' (rich_body @ [nl] @ []) = ''python''"
  by code_simp

lemma rich_code_type: "detect_code_type (rich_body @ [nl] @ []) = ''test_code''"
  by code_simp

lemma rich_patterns:
  "detect_patterns (rich_body @ [nl] @ []) = [''test_code'', ''authentication'', ''logging'', ''security'']"
  by code_simp

lemma rich_lines: "non_blank_lines (rich_body @ [nl] @ []) = 21"
  by code_simp

lemma blank_code_type: "detect_code_type ('' '' @ [nl] @ []) = ''general_code''"
  by code_simp

lemma blank_patterns: "detect_patterns ('' '' @ [nl] @ []) = []"
  by code_simp

lemma blank_lines: "non_blank_lines ('' '' @ [nl] @ []) = 0"
  by code_simp

lemma blank_language: "detect_language ''README'' ('' '' @ [nl] @ []) = ''unknown''"
  by code_simp

lemma max_entry_mem: "max_entry kvs = Some e \<Longrightarrow> e \<in> set kvs"
  using first_maximal_in [of kvs e] by (simp add: max_entry_first_maximal)

lemma detect_language_range:
  "detect_language file_name text \<in> insert ''unknown'' (fst ` set language_patterns)"
proof -
  let ?scores = "map (\<lambda>(name, ps). (name, language_score ps (str_lower file_name) text))
                     language_patterns"
  show ?thesis
  proof (cases "max_entry ?scores")
    case None
    then show ?thesis by (simp add: detect_language_def Let_def)
  next
    case (Some e)
    then have "e \<in> set ?scores" by (rule max_entry_mem)
    then have "fst e \<in> fst ` set language_patterns" by force
    then show ?thesis using Some by (cases e) (simp add: detect_language_def Let_def)
  qed
qed

lemma detect_code_type_range:
  "detect_code_type text \<in> insert ''general_code'' (fst ` set code_patterns)"
proof -
  let ?scores = "filter (\<lambda>(code_type, score). score > 0)
      (map (\<lambda>(name, ps). (name, code_type_score ps text)) code_patterns)"
  show ?thesis
  proof (cases "max_entry ?scores")
    case None
    then show ?thesis by (simp add: detect_code_type_def Let_def)
  next
    case (Some e)
    then have "e \<in> set ?scores" by (rule max_entry_mem)
    then have "fst e \<in> fst ` set code_patterns" by force
    then show ?thesis using Some by (cases e) (simp add: detect_code_type_def Let_def)
  qed
qed

lemma calculate_confidence_bounds:
  "0 \<le> calculate_confidence lang code_type pats text
   \<and> calculate_confidence lang code_type pats text \<le> 1"
  by (simp add: calculate_confidence_def Let_def min_def)

lemma calculate_confidence_full:
  "lang \<noteq> ''unknown'' \<Longrightarrow> code_type \<noteq> ''general_code'' \<Longrightarrow> 3 \<le> length pats
     \<Longrightarrow> 20 < non_blank_lines text \<Longrightarrow> calculate_confidence lang code_type pats text = 1"
  by (auto simp add: calculate_confidence_def Let_def min_def)

lemma calculate_confidence_blank:
  "calculate_confidence ''unknown'' ''general_code'' [] ('' '' @ [nl] @ []) = 0"
  using blank_lines by (simp add: calculate_confidence_def Let_def)

section \<open>The summary\<close>

lemma generate_summary_eq:
  "generate_summary lang code_type func cplx pats la ld =
     change_desc la ld @ '' in '' @ str_title lang @ '' for '' @ str_lower func
       @ pattern_desc pats @ ''. Code complexity is '' @ cplx @ ''.''"
  by (simp add: generate_summary_def Let_def)

lemma title_python: "str_title ''python'' = ''Python''"
  by code_simp

lemma lower_testing: "str_lower ''Testing'' = ''testing''"
  by code_simp

lemma str_of_int_examples:
  "str_of_int 10 = ''10''" "str_of_int 3 = ''3''" "str_of_int 2 = ''2''" "str_of_int 4 = ''4''"
  by code_simp+

section \<open>The handlers\<close>

lemma batch_loop_objects:
  "batch_loop (map JObj ds) results = Inr (results @ map analyze_item ds)"
  by (induction ds arbitrary: results) simp_all

lemma empty_language: "detect_language [] ([] @ [nl] @ []) = ''unknown''"
  by code_simp

lemma empty_code_type: "detect_code_type ([] @ [nl] @ []) = ''general_code''"
  by code_simp

lemma empty_patterns: "detect_patterns ([] @ [nl] @ []) = []"
  by code_simp

lemma empty_complexity: "assess_complexity ([] @ [nl] @ []) = ''low''"
  by code_simp

lemma empty_functionality:
  "analyze_functionality ([] @ [nl] @ []) [] ''unknown'' = ''General Purpose Code''"
  by code_simp

lemma empty_lines: "non_blank_lines ([] @ [nl] @ []) = 0"
  by code_simp

lemma empty_summary_words:
  "str_title ''unknown'' = ''Unknown''"
  "str_lower ''General Purpose Code'' = ''general purpose code''"
  by code_simp+

lemma analyze_empty:
  "analyze_code_diff [] [] [] full_diff la ld =
     \<lparr>language = ''unknown'', codeType = ''general_code'',
      functionality = ''General Purpose Code'', complexity = ''low'', patterns = [],
      confidence = 0,
      summary = change_desc la ld
                  @ '' in Unknown for general purpose code. Code complexity is low.''\<rparr>"
  using empty_language empty_code_type empty_patterns empty_complexity empty_functionality
    empty_lines
  by (simp add: analyze_code_diff_def Let_def calculate_confidence_def generate_summary_eq
      pattern_desc_def empty_summary_words)

lemma analyze_batch_objects:
  "map_of data ''files'' = Some (JArr (map JObj ds)) \<longrightarrow>
     analyze_batch data = BatchOk (map analyze_item ds)
     \<and> length (map analyze_item ds) = length ds
     \<and> (\<forall>d result. analyze_code_diff_dyn
                  (dict_get d ''fileName'' (JStr []))
                  (dict_get d ''addedCode'' (JStr []))
                  (dict_get d ''deletedCode'' (JStr []))
                  (dict_get d ''fullDiff'' (JStr []))
                  (dict_get d ''linesAdded'' (JInt 0))
                  (dict_get d ''linesDeleted'' (JInt 0)) = Inr result
           \<longrightarrow> analyze_item d = ItemResult (dict_get d ''fileName'' (JStr [])) result)
     \<and> (\<forall>d e. analyze_code_diff_dyn
                  (dict_get d ''fileName'' (JStr []))
                  (dict_get d ''addedCode'' (JStr []))
                  (dict_get d ''deletedCode'' (JStr []))
                  (dict_get d ''fullDiff'' (JStr []))
                  (dict_get d ''linesAdded'' (JInt 0))
                  (dict_get d ''linesDeleted'' (JInt 0)) = Inl e
           \<longrightarrow> analyze_item d = ItemError (dict_get d ''fileName'' (JStr [])) e)"
proof (intro impI conjI allI)
  assume files: "map_of data ''files'' = Some (JArr (map JObj ds))"
  then have "data \<noteq> []" by auto
  then show "analyze_batch data = BatchOk (map analyze_item ds)"
    using files by (simp add: analyze_batch_def batch_loop_objects)
qed (simp_all add: analyze_item_def)

lemma analyze_batch_three_files:
  "analyze_batch [(''files'', JArr (map JObj three_files))] =
     BatchOk [ItemResult (JStr ''a.py'') (analyze_code_diff ''a.py'' ''x = 1'' [] (JStr []) 0 0),
              ItemError (JStr ''b.py'') TypeError,
              ItemResult (JStr ''c.py'') (analyze_code_diff ''c.py'' [] ''y = 2'' (JStr []) 0 1)]"
proof -
  have "map_of [(''files'', JArr (map JObj three_files))] ''files''
          = Some (JArr (map JObj three_files))"
    by simp
  then have "analyze_batch [(''files'', JArr (map JObj three_files))]
               = BatchOk (map analyze_item three_files)"
    using analyze_batch_objects [of "[(''files'', JArr (map JObj three_files))]" three_files]
    by blast
  then show ?thesis
    by (simp add: three_files_def analyze_item_def dict_get_def analyze_code_diff_dyn_def)
qed

section \<open>The claims\<close>

subsection \<open>Language detection\<close>

text \<open>
  C1. For every file name and combined text, the score of a language is 3 for
  each of its patterns that matches the file name, which the detector
  lower-cases first, plus 1 for each of its patterns that matches somewhere in
  the text (presence, not the number of matches).  The detector returns the
  first language, in the order of the rule table, whose score is the maximum,
  and it returns \<open>unknown\<close> exactly when the maximum is 0.  For an ASCII file
  name the lower-casing changes no score: the patterns are matched without
  regard to case.
\<close>

theorem detect_language_spec:
  "detect_language file_name text =
     (case first_maximal
             (map (\<lambda>(name, ps). (name, language_score_spec ps (str_lower file_name) text))
                  language_patterns) of
        None \<Rightarrow> ''unknown''
      | Some (name, score) \<Rightarrow> if score = 0 then ''unknown'' else name)
   \<and> (detect_language file_name text = ''unknown'') =
       (Max (snd ` set (map (\<lambda>(name, ps).
                               (name, language_score_spec ps (str_lower file_name) text))
                            language_patterns)) = 0)
   \<and> (is_ascii file_name \<longrightarrow>
        language_score_spec pattern_group (str_lower file_name) text
          = language_score_spec pattern_group file_name text)"
proof -
  let ?scores = "map (\<lambda>(name, ps). (name, language_score_spec ps (str_lower file_name) text))
                     language_patterns"
  have eq: "detect_language file_name text =
     (case first_maximal ?scores of
        None \<Rightarrow> ''unknown''
      | Some (name, score) \<Rightarrow> if score = 0 then ''unknown'' else name)"
    by (simp add: detect_language_def Let_def language_score_fold max_entry_first_maximal
        split: option.splits prod.splits)
  have "?scores \<noteq> []" by (simp add: language_patterns_def)
  then obtain e where e: "first_maximal ?scores = Some e"
    using first_maximal_nonempty by blast
  have mem: "e \<in> set ?scores" and mx: "snd e = Max (snd ` set ?scores)"
    using first_maximal_in [OF e] by simp_all
  have "fst e \<in> fst ` set language_patterns" using mem by force
  then have "fst e \<noteq> ''unknown''" using unknown_not_language by metis
  then have "(detect_language file_name text = ''unknown'') = (Max (snd ` set ?scores) = 0)"
    using eq e mx by (cases e) auto
  then show ?thesis using eq language_score_lower by blast
qed

theorem detect_language_spec_witness:
  "is_ascii ''Main.PY''
   \<and> language_score_spec [lit ''.py'' @ [Eol]] (str_lower ''Main.PY'') [] = 3
   \<and> language_score_spec [lit ''.py'' @ [Eol]] ''Main.PY'' [] = 3"
  using detect_language_spec [of "''Main.PY''" "[]" "[lit ''.py'' @ [Eol]]"] main_py_score
  by simp

text \<open>
  C2. For the file name \<open>data.xyz\<close> with the added text \<open>lorem ipsum\<close> and no
  deleted text the specification expects the language \<open>unknown\<close>.  The analyzer
  returns \<open>css\<close>: every pattern of a language is searched in the file name too,
  and the CSS class-selector pattern \<^verbatim>\<open>\.\w+\<close> matches \<^verbatim>\<open>.xyz\<close> there.
\<close>

theorem data_xyz_language:
  "language (analyze_code_diff ''data.xyz'' ''lorem ipsum'' [] full_diff lines_added lines_deleted)
     = ''css''"
  using detect_language_data_xyz by (simp add: analyze_code_diff_def Let_def)

subsection \<open>Code-type detection\<close>

text \<open>
  C3. For every combined text, the score of a code-type category is the number
  of occurrences of its patterns in the text, the matches of each pattern
  counted from left to right without overlap.  The detector returns the first
  category, in the order of the rule table, whose score is the maximum, and
  \<open>general_code\<close> when the maximum is 0.  In particular a text in which the
  \<open>database_query\<close> patterns occur three times and the \<open>api_endpoint\<close> patterns
  once, and no other category reaches three, is a \<open>database_query\<close>.
\<close>

theorem detect_code_type_spec:
  "detect_code_type text =
     (case first_maximal (map (\<lambda>(name, ps). (name, occurrences ps text)) code_patterns) of
        None \<Rightarrow> ''general_code''
      | Some (name, score) \<Rightarrow> if score = 0 then ''general_code'' else name)
   \<and> (occurrences (patterns_of ''database_query'') text = 3
        \<and> occurrences (patterns_of ''api_endpoint'') text = 1
        \<and> (\<forall>(name, ps)\<in>set code_patterns.
               name \<noteq> ''database_query'' \<longrightarrow> name \<noteq> ''api_endpoint'' \<longrightarrow> occurrences ps text < 3)
      \<longrightarrow> detect_code_type text = ''database_query'')"
proof (intro conjI impI)
  show "detect_code_type text =
     (case first_maximal (map (\<lambda>(name, ps). (name, occurrences ps text)) code_patterns) of
        None \<Rightarrow> ''general_code''
      | Some (name, score) \<Rightarrow> if score = 0 then ''general_code'' else name)"
    by (rule detect_code_type_eq)
next
  assume h: "occurrences (patterns_of ''database_query'') text = 3
        \<and> occurrences (patterns_of ''api_endpoint'') text = 1
        \<and> (\<forall>(name, ps)\<in>set code_patterns.
               name \<noteq> ''database_query'' \<longrightarrow> name \<noteq> ''api_endpoint'' \<longrightarrow> occurrences ps text < 3)"
  let ?f = "\<lambda>(name, ps). (name, occurrences ps text)"
  define rest where "rest = drop 2 code_patterns"
  have cp: "code_patterns = (''api_endpoint'', patterns_of ''api_endpoint'')
      # (''database_query'', patterns_of ''database_query'') # rest"
    unfolding rest_def by (rule code_patterns_head)
  have dist: "''api_endpoint'' \<notin> fst ` set rest" "''database_query'' \<notin> fst ` set rest"
    using code_patterns_distinct by (subst (asm) cp, simp)+
  have others: "occurrences ps text < 3" if "(name, ps) \<in> set rest" for name ps
  proof -
    have "name \<in> fst ` set rest" using that by force
    then have "name \<noteq> ''api_endpoint''" "name \<noteq> ''database_query''" using dist by blast+
    moreover have "(name, ps) \<in> set code_patterns" using that by (subst cp) simp
    ultimately show ?thesis using h by blast
  qed
  have scores: "map ?f code_patterns =
      (''api_endpoint'', 1) # (''database_query'', 3) # map ?f rest"
    using h by (subst cp) simp
  have "first_maximal (map ?f code_patterns) = Some (''database_query'', 3)"
  proof (rule first_maximalI)
    show "find (\<lambda>e. snd e = snd (''database_query'', 3::nat)) (map ?f code_patterns)
            = Some (''database_query'', 3)"
      by (simp add: scores)
    show "\<forall>e\<in>set (map ?f code_patterns). snd e \<le> snd (''database_query'', 3::nat)"
      using others by (auto simp add: scores less_imp_le)
  qed
  then show "detect_code_type text = ''database_query''"
    by (simp add: detect_code_type_eq)
qed

theorem detect_code_type_spec_witness:
  "occurrences (patterns_of ''database_query'') three_selects = 3
   \<and> occurrences (patterns_of ''api_endpoint'') three_selects = 1
   \<and> detect_code_type three_selects = ''database_query''"
proof -
  have cp: "code_patterns = (''api_endpoint'', patterns_of ''api_endpoint'')
      # (''database_query'', patterns_of ''database_query'') # drop 2 code_patterns"
    by (rule code_patterns_head)
  have a: "occurrences (patterns_of ''api_endpoint'') three_selects = 1"
    and b: "occurrences (patterns_of ''database_query'') three_selects = 3"
    using three_selects_scores by (subst (asm) cp, simp)+
  have "list_all (\<lambda>e. snd e < 3 \<or> fst e = ''database_query'')
          (map (\<lambda>(name, ps). (name, occurrences ps three_selects)) code_patterns)"
    unfolding three_selects_scores by simp
  then have c: "\<forall>(name, ps)\<in>set code_patterns.
               name \<noteq> ''database_query'' \<longrightarrow> name \<noteq> ''api_endpoint''
                 \<longrightarrow> occurrences ps three_selects < 3"
    by (auto simp add: list_all_iff)
  show ?thesis using detect_code_type_spec [of three_selects] a b c by blast
qed

subsection \<open>Complexity\<close>

text \<open>
  C4. For every combined text, the weighted score is three times the number of
  occurrences of the high-tier patterns plus twice that of the medium-tier
  patterns plus that of the low-tier patterns; the code lines are the lines
  whose trimmed form is not empty and does not start with \<^verbatim>\<open>#\<close>, \<^verbatim>\<open>//\<close>, \<^verbatim>\<open>/*\<close> or
  \<^verbatim>\<open>*\<close>; and the tier is \<open>high\<close> if the weighted score exceeds 10 or there are
  more than 100 code lines, else \<open>medium\<close> if the score exceeds 5 or there are
  more than 50 code lines, else \<open>low\<close>.
\<close>

theorem assess_complexity_spec:
  "assess_complexity text =
     (let weighted_score = occurrences complexity_high text * 3
            + occurrences complexity_medium text * 2 + occurrences complexity_low text * 1;
          loc = length (filter (\<lambda>line. str_strip line \<noteq> [] \<and> \<not> prefix ''#'' (str_strip line)
                                     \<and> \<not> prefix ''//'' (str_strip line)
                                     \<and> \<not> prefix ''/*'' (str_strip line)
                                     \<and> \<not> prefix ''*'' (str_strip line))
                               (split_on nl text))
      in if weighted_score > 10 \<or> loc > 100 then ''high''
         else if weighted_score > 5 \<or> loc > 50 then ''medium''
         else ''low'')"
  unfolding assess_complexity_eq code_lines_eq ..

subsection \<open>The full diff\<close>

text \<open>
  C8. Two calls of the analysis that differ only in the full diff return the
  same result record.
\<close>

theorem full_diff_ignored:
  "analyze_code_diff file_name added_code deleted_code full_diff1 lines_added lines_deleted
     = analyze_code_diff file_name added_code deleted_code full_diff2 lines_added lines_deleted"
  by (simp add: analyze_code_diff_def)

subsection \<open>The result record\<close>

text \<open>
  C5. For every input the confidence of the result lies between 0 and 1, the
  language is a key of the language table or \<open>unknown\<close>, and the code type is a
  key of the code-type table or \<open>general_code\<close>.  When the added text is a single
  space, nothing is deleted and the language is unknown, no pattern is found and
  the confidence is 0.  When the language and the code type are recognised, at
  least three patterns are found and the text has more than 20 non-blank lines,
  the confidence is 1.
\<close>

theorem analysis_result_invariant:
  "0 \<le> confidence (analyze_code_diff file_name added_code deleted_code full_diff la ld)
   \<and> confidence (analyze_code_diff file_name added_code deleted_code full_diff la ld) \<le> 1
   \<and> language (analyze_code_diff file_name added_code deleted_code full_diff la ld)
        \<in> insert ''unknown'' (fst ` set language_patterns)
   \<and> codeType (analyze_code_diff file_name added_code deleted_code full_diff la ld)
        \<in> insert ''general_code'' (fst ` set code_patterns)
   \<and> (language (analyze_code_diff file_name '' '' [] full_diff la ld) = ''unknown''
        \<longrightarrow> patterns (analyze_code_diff file_name '' '' [] full_diff la ld) = []
          \<and> confidence (analyze_code_diff file_name '' '' [] full_diff la ld) = 0)
   \<and> (language (analyze_code_diff file_name added_code deleted_code full_diff la ld) \<noteq> ''unknown''
        \<and> codeType (analyze_code_diff file_name added_code deleted_code full_diff la ld)
            \<noteq> ''general_code''
        \<and> 3 \<le> length (patterns (analyze_code_diff file_name added_code deleted_code full_diff la ld))
        \<and> 20 < non_blank_lines (added_code @ [nl] @ deleted_code)
        \<longrightarrow> confidence (analyze_code_diff file_name added_code deleted_code full_diff la ld) = 1)"
proof (intro conjI impI)
  show "0 \<le> confidence (analyze_code_diff file_name added_code deleted_code full_diff la ld)"
    using calculate_confidence_bounds by (simp add: analyze_code_diff_def Let_def)
  show "confidence (analyze_code_diff file_name added_code deleted_code full_diff la ld) \<le> 1"
    using calculate_confidence_bounds by (simp add: analyze_code_diff_def Let_def)
  show "language (analyze_code_diff file_name added_code deleted_code full_diff la ld)
        \<in> insert ''unknown'' (fst ` set language_patterns)"
    using detect_language_range by (simp add: analyze_code_diff_def Let_def)
  show "codeType (analyze_code_diff file_name added_code deleted_code full_diff la ld)
        \<in> insert ''general_code'' (fst ` set code_patterns)"
    using detect_code_type_range by (simp add: analyze_code_diff_def Let_def)
next
  assume "language (analyze_code_diff file_name '' '' [] full_diff la ld) = ''unknown''"
  then have u: "detect_language file_name ('' '' @ [nl] @ []) = ''unknown''"
    by (simp add: analyze_code_diff_def Let_def)
  show "patterns (analyze_code_diff file_name '' '' [] full_diff la ld) = []"
    using blank_patterns by (simp add: analyze_code_diff_def Let_def)
  show "confidence (analyze_code_diff file_name '' '' [] full_diff la ld) = 0"
    using u blank_patterns blank_code_type calculate_confidence_blank
    by (simp add: analyze_code_diff_def Let_def)
next
  assume "language (analyze_code_diff file_name added_code deleted_code full_diff la ld) \<noteq> ''unknown''
        \<and> codeType (analyze_code_diff file_name added_code deleted_code full_diff la ld)
            \<noteq> ''general_code''
        \<and> 3 \<le> length (patterns (analyze_code_diff file_name added_code deleted_code full_diff la ld))
        \<and> 20 < non_blank_lines (added_code @ [nl] @ deleted_code)"
  then show "confidence (analyze_code_diff file_name added_code deleted_code full_diff la ld) = 1"
    using calculate_confidence_full by (simp add: analyze_code_diff_def Let_def)
qed

theorem analysis_result_invariant_witness:
  "language (analyze_code_diff ''README'' '' '' [] ''diff'' 1 0) = ''unknown''
   \<and> patterns (analyze_code_diff ''README'' '' '' [] ''diff'' 1 0) = []
   \<and> confidence (analyze_code_diff ''README'' '' '' [] ''diff'' 1 0) = 0
   \<and> language (analyze_code_diff ''app.py'' rich_body [] ''diff'' 21 0) = ''python''
   \<and> codeType (analyze_code_diff ''app.py'' rich_body [] ''diff'' 21 0) = ''test_code''
   \<and> length (patterns (analyze_code_diff ''app.py'' rich_body [] ''diff'' 21 0)) = 4
   \<and> non_blank_lines (rich_body @ [nl] @ []) = 21
   \<and> confidence (analyze_code_diff ''app.py'' rich_body [] ''diff'' 21 0) = 1"
proof -
  have b: "language (analyze_code_diff ''README'' '' '' [] ''diff'' 1 0) = ''unknown''"
    using blank_language by (simp add: analyze_code_diff_def Let_def)
  have r1: "language (analyze_code_diff ''app.py'' rich_body [] ''diff'' 21 0) = ''python''"
    using rich_language by (simp add: analyze_code_diff_def Let_def)
  have r2: "codeType (analyze_code_diff ''app.py'' rich_body [] ''diff'' 21 0) = ''test_code''"
    using rich_code_type by (simp add: analyze_code_diff_def Let_def)
  have r3: "length (patterns (analyze_code_diff ''app.py'' rich_body [] ''diff'' 21 0)) = 4"
    using rich_patterns by (simp add: analyze_code_diff_def Let_def)
  note r4 = rich_lines
  from analysis_result_invariant [of "''README''" "[]" "[]" "''diff''" 1 0]
  have c0: "patterns (analyze_code_diff ''README'' '' '' [] ''diff'' 1 0) = []
          \<and> confidence (analyze_code_diff ''README'' '' '' [] ''diff'' 1 0) = 0"
    using b by blast
  from analysis_result_invariant [of "''app.py''" rich_body "[]" "''diff''" 21 0]
  have c1: "confidence (analyze_code_diff ''app.py'' rich_body [] ''diff'' 21 0) = 1"
    using r1 r2 r3 r4 by simp
  show ?thesis using b c0 r1 r2 r3 r4 c1 by blast
qed

subsection \<open>The summary\<close>

text \<open>
  C6. The summary starts with the change-size clause, which is
  \<open>Modified code (+A/-D lines)\<close> when both line counts are positive,
  \<open>Added N lines of code\<close> when only the added count is positive,
  \<open>Removed N lines of code\<close> when only the deleted count is positive, and
  \<open>Code structure changes\<close> when both are zero.  For 10 added and 0 deleted
  lines, the language \<open>python\<close>, the functionality \<open>Testing\<close>, no patterns and low
  complexity the summary is
  \<open>Added 10 lines of code in Python for testing. Code complexity is low.\<close>
\<close>

theorem generate_summary_spec:
  "(0 < la \<and> 0 < ld \<longrightarrow>
      change_desc la ld
        = ''Modified code (+'' @ str_of_int la @ ''/-'' @ str_of_int ld @ '' lines)'')
   \<and> (0 < la \<and> ld \<le> 0 \<longrightarrow> change_desc la ld = ''Added '' @ str_of_int la @ '' lines of code'')
   \<and> (la \<le> 0 \<and> 0 < ld \<longrightarrow> change_desc la ld = ''Removed '' @ str_of_int ld @ '' lines of code'')
   \<and> (la = 0 \<and> ld = 0 \<longrightarrow> change_desc la ld = ''Code structure changes'')
   \<and> generate_summary lang code_type func cplx pats la ld =
        change_desc la ld @ '' in '' @ str_title lang @ '' for '' @ str_lower func
          @ pattern_desc pats @ ''. Code complexity is '' @ cplx @ ''.''
   \<and> generate_summary ''python'' code_type ''Testing'' ''low'' [] 10 0 =
        ''Added 10 lines of code in Python for testing. Code complexity is low.''"
proof (intro conjI impI)
  show "generate_summary lang code_type func cplx pats la ld =
        change_desc la ld @ '' in '' @ str_title lang @ '' for '' @ str_lower func
          @ pattern_desc pats @ ''. Code complexity is '' @ cplx @ ''.''"
    by (rule generate_summary_eq)
  show "generate_summary ''python'' code_type ''Testing'' ''low'' [] 10 0 =
        ''Added 10 lines of code in Python for testing. Code complexity is low.''"
    by (simp add: generate_summary_eq change_desc_def pattern_desc_def title_python
        lower_testing str_of_int_examples)
qed (simp_all add: change_desc_def)

theorem generate_summary_spec_witness:
  "change_desc 3 2 = ''Modified code (+3/-2 lines)''
   \<and> change_desc 10 0 = ''Added 10 lines of code''
   \<and> change_desc 0 4 = ''Removed 4 lines of code''
   \<and> change_desc 0 0 = ''Code structure changes''"
  using generate_summary_spec [of 3 2 "[]" "[]" "[]" "[]" "[]"]
    generate_summary_spec [of 10 0 "[]" "[]" "[]" "[]" "[]"]
    generate_summary_spec [of 0 4 "[]" "[]" "[]" "[]" "[]"]
    generate_summary_spec [of 0 0 "[]" "[]" "[]" "[]" "[]"]
  by (simp add: str_of_int_examples)

subsection \<open>Validation at the boundary\<close>




subsection \<open>The batch handler\<close>

text \<open>
  C9. The specification expects one result for each file of a batch, in the
  order of the input, an item whose analysis fails carrying its file name and
  the error while the other items carry their results.  The handler does so for
  items that are JSON objects (\<open>analyze_batch_objects\<close>).  An item that is not an
  object, here \<^verbatim>\<open>null\<close> between two proper files, has no \<^verbatim>\<open>get\<close>: the call raises
  in the \<^verbatim>\<open>try\<close> and again in the \<^verbatim>\<open>except\<close> that builds the error element, and the
  whole batch is answered with status 500 and no results.
\<close>

theorem batch_null_item_aborts:
  "analyze_batch batch_with_null = BatchServerError AttributeError"
  by (simp add: analyze_batch_def batch_with_null_def)

text \<open>
  C10. The batch handler does not validate its items: an item with an empty file
  name and empty \<^verbatim>\<open>addedCode\<close>, \<^verbatim>\<open>deletedCode\<close> and \<^verbatim>\<open>fullDiff\<close> is analysed and
  yields a result made of the fallbacks, while the single-analysis handler
  rejects the same object with a client error.
\<close>

theorem batch_accepts_empty_item:
  "analyze_batch [(''files'', JArr [JObj (empty_item la ld)])] =
     BatchOk [ItemResult (JStr [])
       \<lparr>language = ''unknown'', codeType = ''general_code'',
        functionality = ''General Purpose Code'', complexity = ''low'', patterns = [],
        confidence = 0,
        summary = change_desc la ld
                    @ '' in Unknown for general purpose code. Code complexity is low.''\<rparr>]
   \<and> analyze_code (empty_item la ld) = BadRequest ''fileName is required''"
  by (simp add: analyze_batch_def analyze_item_def analyze_code_def empty_item_def dict_get_def
      analyze_code_diff_dyn_def analyze_empty)

end
